theory Spec2Isabelle
  imports Complex_Main "HOL-Library.AList"
begin

section \<open>Python values, errors and results\<close>

text \<open>
  The importers of \<^verbatim>\<open>view/python_core/measurement_list/importers.py\<close> work on
  dynamically typed pandas rows. A Python float is modelled by an exact real
  number or one of the three special values; rounding and overflow of IEEE
  doubles are not modelled.
\<close>

datatype pyfloat = Finite real | PosInf | NegInf | NaN

datatype pyval =
    PInt int
  | PFloat pyfloat
  | PStr string
  | PNone
  | PList "pyval list"
  | PDict "(string \<times> pyval) list"

text \<open>Every exception the module can raise, or let through, is a value.\<close>

datatype error =
    ValueError
  | ZeroDivisionError
  | KeyError string
  | IndexError
  | TypeError
  | AttributeError string
  | NotImplementedError
  | OverflowError
  | IOError string
  | AssertionError string "pyval list"
  | ExternalError string

text \<open>A pandas Series, and hence a table row, is an ordered mapping from column
  names to values.\<close>

type_synonym series = "(string \<times> pyval) list"

section \<open>Strings\<close>

text \<open>
  Strings are ASCII character lists. \<^verbatim>\<open>str.strip()\<close> removes the ASCII
  whitespace characters from both ends; \<^verbatim>\<open>str.split(sep)\<close> with a separator
  cuts at every occurrence of it, so two adjacent separators give an empty
  piece.
\<close>

definition is_space :: "char \<Rightarrow> bool" where
  "is_space c \<longleftrightarrow>
     c \<in> set [CHR 0x09, CHR 0x0A, CHR 0x0B, CHR 0x0C, CHR 0x0D,
               CHR 0x1C, CHR 0x1D, CHR 0x1E, CHR 0x1F, CHR '' '']"

definition strip :: "string \<Rightarrow> string" where
  "strip s = rev (dropWhile is_space (rev (dropWhile is_space s)))"

text \<open>The numeric parsers skip the whitespace of C only: the four separator
  characters 0x1C to 0x1F are whitespace for \<^verbatim>\<open>str.strip()\<close> but not for
  \<^verbatim>\<open>float()\<close> and \<^verbatim>\<open>int()\<close>.\<close>

definition is_c_space :: "char \<Rightarrow> bool" where
  "is_c_space c \<longleftrightarrow>
     c \<in> set [CHR 0x09, CHR 0x0A, CHR 0x0B, CHR 0x0C, CHR 0x0D, CHR '' '']"

definition numeric_strip :: "string \<Rightarrow> string" where
  "numeric_strip s = rev (dropWhile is_c_space (rev (dropWhile is_c_space s)))"

fun split_char :: "char \<Rightarrow> string \<Rightarrow> string list" where
  "split_char sep [] = [[]]"
| "split_char sep (c # cs) =
     (if c = sep then [] # split_char sep cs
      else (let r = split_char sep cs in (c # hd r) # tl r))"

fun join_str :: "string \<Rightarrow> string list \<Rightarrow> string" where
  "join_str sep [] = []"
| "join_str sep [x] = x"
| "join_str sep (x # y # ys) = x @ sep @ join_str sep (y # ys)"

definition startswith :: "string \<Rightarrow> string \<Rightarrow> bool" where
  "startswith s p \<longleftrightarrow> take (length p) s = p"

definition endswith :: "string \<Rightarrow> string \<Rightarrow> bool" where
  "endswith s p \<longleftrightarrow> length p \<le> length s \<and> drop (length s - length p) s = p"

section \<open>Floats\<close>

definition is_digit :: "char \<Rightarrow> bool" where
  "is_digit c \<longleftrightarrow> c \<in> set ''0123456789''"

definition digit_val :: "char \<Rightarrow> nat" where
  "digit_val c = of_char c - 48"

definition digits_val :: "string \<Rightarrow> nat" where
  "digits_val ds = foldl (\<lambda>a c. 10 * a + digit_val c) 0 ds"

text \<open>Numeric literals may group digits with single underscores: an underscore
  is accepted only between two digits, and is dropped.\<close>

fun remove_underscores :: "char \<Rightarrow> string \<Rightarrow> string option" where
  "remove_underscores prev [] = (if prev = CHR ''_'' then None else Some [])"
| "remove_underscores prev (c # cs) =
     (if c = CHR ''_'' then
        (if is_digit prev then remove_underscores c cs else None)
      else if prev = CHR ''_'' \<and> \<not> is_digit c then None
      else map_option ((#) c) (remove_underscores c cs))"

definition lower :: "char \<Rightarrow> char" where
  "lower c =
     (case map_of (zip ''ABCDEFGHIJKLMNOPQRSTUVWXYZ'' ''abcdefghijklmnopqrstuvwxyz'') c of
        None \<Rightarrow> c
      | Some l \<Rightarrow> l)"

definition split_sign :: "string \<Rightarrow> bool \<times> string" where
  "split_sign s =
     (case s of
        [] \<Rightarrow> (False, s)
      | c # cs \<Rightarrow>
          if c = CHR ''-'' then (True, cs)
          else if c = CHR ''+'' then (False, cs)
          else (False, s))"

definition parse_exponent :: "string \<Rightarrow> int option" where
  "parse_exponent s =
     (case s of
        [] \<Rightarrow> Some 0
      | c # cs \<Rightarrow>
          if c = CHR ''e'' \<or> c = CHR ''E'' then
            (let (neg, ds) = split_sign cs in
             if ds \<noteq> [] \<and> list_all is_digit ds
             then Some (if neg then - int (digits_val ds) else int (digits_val ds))
             else None)
          else None)"

definition scale10 :: "real \<Rightarrow> int \<Rightarrow> real" where
  "scale10 m e = (if 0 \<le> e then m * 10 ^ nat e else m / 10 ^ nat (- e))"

definition parse_decimal :: "string \<Rightarrow> real option" where
  "parse_decimal s =
     (let ip = takeWhile is_digit s; r1 = dropWhile is_digit s;
          has_point = (r1 \<noteq> [] \<and> hd r1 = CHR ''.'');
          fp = (if has_point then takeWhile is_digit (tl r1) else []);
          r2 = (if has_point then dropWhile is_digit (tl r1) else r1)
      in if ip = [] \<and> fp = [] then None
         else (case parse_exponent r2 of
                 None \<Rightarrow> None
               | Some e \<Rightarrow>
                   Some (scale10 (real (digits_val (ip @ fp))) (e - int (length fp)))))"

text \<open>The builtin \<^verbatim>\<open>float(x)\<close> on a string: surrounding C whitespace is ignored,
  then an optional sign, then \<^verbatim>\<open>inf\<close>, \<^verbatim>\<open>infinity\<close> or \<^verbatim>\<open>nan\<close> in
  any case, or a decimal literal with optional fraction and exponent.\<close>

definition py_float :: "string \<Rightarrow> error + pyfloat" where
  "py_float x =
     (case remove_underscores (CHR 0x00) (numeric_strip x) of
        None \<Rightarrow> Inl ValueError
      | Some s \<Rightarrow>
          (let (neg, body) = split_sign s; word = map lower body in
           if word = ''inf'' \<or> word = ''infinity'' then Inr (if neg then NegInf else PosInf)
           else if word = ''nan'' then Inr NaN
           else (case parse_decimal body of
                   None \<Rightarrow> Inl ValueError
                 | Some r \<Rightarrow> Inr (Finite (if neg then - r else r)))))"

fun float_sub :: "pyfloat \<Rightarrow> pyfloat \<Rightarrow> pyfloat" where
  "float_sub (Finite a) (Finite b) = Finite (a - b)"
| "float_sub NaN y = NaN"
| "float_sub x NaN = NaN"
| "float_sub PosInf PosInf = NaN"
| "float_sub NegInf NegInf = NaN"
| "float_sub PosInf y = PosInf"
| "float_sub NegInf y = NegInf"
| "float_sub (Finite a) PosInf = NegInf"
| "float_sub (Finite a) NegInf = PosInf"

fun float_quot :: "pyfloat \<Rightarrow> int \<Rightarrow> pyfloat" where
  "float_quot (Finite a) n = Finite (a / real_of_int n)"
| "float_quot NaN n = NaN"
| "float_quot PosInf n = (if 0 < n then PosInf else NegInf)"
| "float_quot NegInf n = (if 0 < n then NegInf else PosInf)"

text \<open>True division of a float by an integer raises on a zero divisor.\<close>

definition float_div_int :: "pyfloat \<Rightarrow> int \<Rightarrow> error + pyfloat" where
  "float_div_int x n = (if n = 0 then Inl ZeroDivisionError else Inr (float_quot x n))"

section \<open>Frame interval from the timing list\<close>

text \<open>The list comprehension \<^verbatim>\<open>[float(x) for x in ...]\<close>: the first token that
  is no float literal raises.\<close>

fun floats_of :: "string list \<Rightarrow> error + pyfloat list" where
  "floats_of [] = Inr []"
| "floats_of (x # xs) =
     (case py_float x of
        Inl e \<Rightarrow> Inl e
      | Inr v \<Rightarrow> (case floats_of xs of Inl e \<Rightarrow> Inl e | Inr vs \<Rightarrow> Inr (v # vs)))"

definition calculate_dt_from_timing_ms :: "string \<Rightarrow> error + pyfloat" where
  "calculate_dt_from_timing_ms timing_ms =
     (case floats_of (split_char CHR '' '' (strip timing_ms)) of
        Inl e \<Rightarrow> Inl e
      | Inr times' \<Rightarrow>
          float_div_int (float_sub (last times') (hd times')) (int (length times') - 1))"

definition getitem :: "series \<Rightarrow> string \<Rightarrow> error + pyval" where
  "getitem s k = (case map_of s k of None \<Rightarrow> Inl (KeyError k) | Some v \<Rightarrow> Inr v)"

text \<open>The timing entry is expected to be a string; any other value has no
  \<^verbatim>\<open>strip\<close> method.\<close>

definition timing_dt :: "series \<Rightarrow> error + pyfloat" where
  "timing_dt s =
     (case getitem s ''Timing_ms'' of
        Inl e \<Rightarrow> Inl e
      | Inr (PStr t) \<Rightarrow> calculate_dt_from_timing_ms t
      | Inr _ \<Rightarrow> Inl (AttributeError ''strip''))"

text \<open>Every exception of the computation is caught.\<close>

definition additional_cols_func :: "series \<Rightarrow> series" where
  "additional_cols_func s =
     (case timing_dt s of
        Inr dt \<Rightarrow> [(''dt'', PFloat dt), (''Analyze'', PInt 1)]
      | Inl e \<Rightarrow> [(''dt'', PInt (- 1)), (''Analyze'', PInt 0)])"

section \<open>Paths\<close>

text \<open>
  The pure paths of \<^verbatim>\<open>pathlib\<close>, as the module uses them: a path is parsed
  from one string into drive, root and parts; \<^verbatim>\<open>pl.Path\<close> takes the flavour
  of the operating system the program runs on, \<^verbatim>\<open>pl.PureWindowsPath\<close> is
  always of the Windows flavour.
\<close>

datatype flavour = Posix | Windows

definition bslash :: char where
  "bslash = CHR 0x5C"

definition slash :: char where
  "slash = CHR ''/''"

fun sep_of :: "flavour \<Rightarrow> char" where
  "sep_of Posix = slash"
| "sep_of Windows = bslash"

record pure_path =
  flav :: flavour
  drv :: string
  root :: string
  parts :: "string list"

definition find_from :: "char \<Rightarrow> nat \<Rightarrow> string \<Rightarrow> nat option" where
  "find_from c n s =
     (let rest = drop n s in
      if c \<in> set rest then Some (n + length (takeWhile (\<lambda>x. x \<noteq> c) rest)) else None)"

definition split_extended_path :: "string \<Rightarrow> string \<times> string" where
  "split_extended_path s =
     (if startswith s [bslash, bslash, CHR ''?'', bslash] then
        (let prefix = take 4 s; s1 = drop 4 s in
         if startswith s1 (''UNC'' @ [bslash]) then (prefix @ take 3 s1, bslash # drop 3 s1)
         else (prefix, s1))
      else ([], s))"

definition is_drive_letter :: "string \<Rightarrow> bool" where
  "is_drive_letter s \<longleftrightarrow>
     (\<exists>c\<in>set ''abcdefghijklmnopqrstuvwxyzABCDEFGHIJKLMNOPQRSTUVWXYZ''. s = [c])"

definition splitroot_windows :: "string \<Rightarrow> string \<times> string \<times> string" where
  "splitroot_windows part0 =
     (let sep = [bslash];
          (prefix, part) =
             (if take 1 (drop 1 part0) = sep \<and> take 1 part0 = sep
              then split_extended_path part0 else ([], part0));
          first = take 1 part; second = take 1 (drop 1 part); third = take 1 (drop 2 part);
          unc =
            (if second = sep \<and> first = sep \<and> third \<noteq> sep then
               (case find_from bslash 2 part of
                  None \<Rightarrow> None
                | Some index \<Rightarrow>
                    (let found = find_from bslash (index + 1) part in
                     if found = Some (index + 1) then None
                     else
                       (let index2 = (case found of None \<Rightarrow> length part | Some i \<Rightarrow> i) in
                        if prefix \<noteq> []
                        then Some (prefix @ drop 1 (take index2 part), sep,
                                   drop (index2 + 1) part)
                        else Some (take index2 part, sep, drop (index2 + 1) part))))
             else None)
      in case unc of
           Some r \<Rightarrow> r
         | None \<Rightarrow>
             (let has_drive = (second = '':'' \<and> is_drive_letter first);
                  drv = (if has_drive then take 2 part else []);
                  part1 = (if has_drive then drop 2 part else part);
                  first1 = (if has_drive then third else first)
              in if first1 = sep
                 then (prefix @ drv, first1, dropWhile (\<lambda>c. c = bslash) part1)
                 else (prefix @ drv, [], part1)))"

definition splitroot_posix :: "string \<Rightarrow> string \<times> string \<times> string" where
  "splitroot_posix part =
     (if part \<noteq> [] \<and> hd part = slash then
        (let stripped_part = dropWhile (\<lambda>c. c = slash) part in
         if length part - length stripped_part = 2 then ([], [slash, slash], stripped_part)
         else ([], [slash], stripped_part))
      else ([], [], part))"

fun splitroot :: "flavour \<Rightarrow> string \<Rightarrow> string \<times> string \<times> string" where
  "splitroot Posix part = splitroot_posix part"
| "splitroot Windows part = splitroot_windows part"

definition parse_parts :: "flavour \<Rightarrow> string \<Rightarrow> pure_path" where
  "parse_parts fl part0 =
     (if part0 = [] then \<lparr>flav = fl, drv = [], root = [], parts = []\<rparr>
      else
        (let part = (case fl of Windows \<Rightarrow> map (\<lambda>c. if c = slash then bslash else c) part0
                              | Posix \<Rightarrow> part0);
             (d, r, rel) = splitroot fl part;
             names = filter (\<lambda>x. x \<noteq> [] \<and> x \<noteq> ''.'') (split_char (sep_of fl) rel)
         in \<lparr>flav = fl, drv = d, root = r,
             parts = (if d \<noteq> [] \<or> r \<noteq> [] then (d @ r) # names else names)\<rparr>))"

definition join_parsed_parts :: "pure_path \<Rightarrow> pure_path \<Rightarrow> pure_path" where
  "join_parsed_parts p p2 =
     (if root p2 \<noteq> [] then
        (if drv p2 = [] \<and> drv p \<noteq> []
         then p\<lparr>root := root p2, parts := (drv p @ root p2) # tl (parts p2)\<rparr>
         else p2)
      else if drv p2 \<noteq> [] then
        (if drv p2 = drv p \<or>
            (flav p = Windows \<and> map lower (drv p2) = map lower (drv p))
         then p\<lparr>parts := parts p @ tl (parts p2)\<rparr>
         else p2)
      else p\<lparr>parts := parts p @ parts p2\<rparr>)"

definition truediv :: "pure_path \<Rightarrow> string \<Rightarrow> pure_path" where
  "truediv p key = join_parsed_parts p (parse_parts (flav p) key)"

definition path_str :: "pure_path \<Rightarrow> string" where
  "path_str p =
     (let s = (if drv p \<noteq> [] \<or> root p \<noteq> []
               then drv p @ root p @ join_str [sep_of (flav p)] (tl (parts p))
               else join_str [sep_of (flav p)] (parts p))
      in if s = [] then ''.'' else s)"

definition path_name :: "pure_path \<Rightarrow> string" where
  "path_name p =
     (if length (parts p) = (if drv p \<noteq> [] \<or> root p \<noteq> [] then 1 else 0) then []
      else last (parts p))"

definition rfind :: "char \<Rightarrow> string \<Rightarrow> nat option" where
  "rfind c s =
     (if c \<in> set s then Some (length s - 1 - length (takeWhile (\<lambda>x. x \<noteq> c) (rev s)))
      else None)"

definition path_stem :: "pure_path \<Rightarrow> string" where
  "path_stem p =
     (let name = path_name p in
      case rfind CHR ''.'' name of
        None \<Rightarrow> name
      | Some i \<Rightarrow> if 0 < i \<and> i < length name - 1 then take i name else name)"

definition path_parent :: "pure_path \<Rightarrow> pure_path" where
  "path_parent p =
     (if length (parts p) = 1 \<and> (drv p \<noteq> [] \<or> root p \<noteq> []) then p
      else p\<lparr>parts := butlast (parts p)\<rparr>)"

text \<open>Equality of paths compares the parts, case-folded on Windows.\<close>

definition path_eq :: "pure_path \<Rightarrow> pure_path \<Rightarrow> bool" where
  "path_eq p q \<longleftrightarrow>
     flav p = flav q \<and>
     (case flav p of
        Windows \<Rightarrow> map (map lower) (parts p) = map (map lower) (parts q)
      | Posix \<Rightarrow> parts p = parts q)"

section \<open>The importer classes\<close>

datatype importer_class = TillImporterOneWavelength | TillImporterTwoWavelength | LSMImporter

record importer =
  cls :: importer_class
  default_values :: series
  associated_extensions :: "string list option"
  associate_file_type :: "string option"
  LE_loadExp :: "int option"
  movie_data_extensions :: "string list option"

text \<open>The constructors, each running its parent's constructor first.\<close>

definition BaseImporter_init :: "importer_class \<Rightarrow> series \<Rightarrow> importer" where
  "BaseImporter_init c dv =
     \<lparr>cls = c, default_values = dv, associated_extensions = None,
      associate_file_type = None, LE_loadExp = None, movie_data_extensions = None\<rparr>"

definition TillImporter_init :: "importer_class \<Rightarrow> series \<Rightarrow> importer" where
  "TillImporter_init c dv =
     (BaseImporter_init c dv)
       \<lparr>associate_file_type := Some ''VWS Log Files'',
        associated_extensions := Some [''.vws.log''],
        movie_data_extensions := Some [''.pst'', ''.ps'']\<rparr>"

definition TillImporterOneWavelength_init :: "series \<Rightarrow> importer" where
  "TillImporterOneWavelength_init dv =
     (TillImporter_init TillImporterOneWavelength dv)\<lparr>LE_loadExp := Some 3\<rparr>"

definition TillImporterTwoWavelength_init :: "series \<Rightarrow> importer" where
  "TillImporterTwoWavelength_init dv =
     (TillImporter_init TillImporterTwoWavelength dv)\<lparr>LE_loadExp := Some 4\<rparr>"

definition LSMImporter_init :: "series \<Rightarrow> importer" where
  "LSMImporter_init dv =
     (BaseImporter_init LSMImporter dv)
       \<lparr>associate_file_type := Some ''Zeiss LSM files'',
        associated_extensions := Some [''.lsm''],
        movie_data_extensions := Some [''.lsm''],
        LE_loadExp := Some 20\<rparr>"

fun new_importer :: "importer_class \<Rightarrow> series \<Rightarrow> importer" where
  "new_importer TillImporterOneWavelength dv = TillImporterOneWavelength_init dv"
| "new_importer TillImporterTwoWavelength dv = TillImporterTwoWavelength_init dv"
| "new_importer LSMImporter dv = LSMImporter_init dv"

subsection \<open>Attribute lookup\<close>

datatype attr =
    AMapping series
  | AStrList "string list"
  | AStr string
  | AInt int
  | ANone
  | AMethod string

definition opt_attr :: "('a \<Rightarrow> attr) \<Rightarrow> 'a option \<Rightarrow> attr" where
  "opt_attr f x = (case x of None \<Rightarrow> ANone | Some v \<Rightarrow> f v)"

text \<open>The instance dictionary: exactly the attributes the constructors assign.\<close>

definition instance_dict :: "importer \<Rightarrow> (string \<times> attr) list" where
  "instance_dict self =
     [(''default_values'', AMapping (default_values self)),
      (''associated_extensions'', opt_attr AStrList (associated_extensions self)),
      (''associate_file_type'', opt_attr AStr (associate_file_type self)),
      (''LE_loadExp'', opt_attr AInt (LE_loadExp self)),
      (''movie_data_extensions'', opt_attr AStrList (movie_data_extensions self))]"

text \<open>The methods a class defines or inherits from the classes of this module.
  The attributes every Python object inherits from \<^verbatim>\<open>object\<close> and \<^verbatim>\<open>ABC\<close>
  (all spelled with a leading underscore) are left out.\<close>

definition BaseImporter_methods :: "string list" where
  "BaseImporter_methods =
     [''get_default_row'', ''import_metadata'', ''read_single_measurement_metadata'',
      ''get_filetype_info_string'', ''ask_for_files'', ''get_animal_tag_raw_data_mapping'',
      ''get_path_relative_to_data_dir'']"

fun class_methods :: "importer_class \<Rightarrow> string list" where
  "class_methods LSMImporter =
     ''convert_lsm_metadata_to_lst_row'' # BaseImporter_methods"
| "class_methods c =
     ''convert_vws_names_to_lst_names'' # ''get_mtime'' # BaseImporter_methods"

definition getattr :: "importer \<Rightarrow> string \<Rightarrow> error + attr" where
  "getattr self name =
     (case map_of (instance_dict self) name of
        Some v \<Rightarrow> Inr v
      | None \<Rightarrow>
          if name \<in> set (class_methods (cls self)) then Inr (AMethod name)
          else Inl (AttributeError name))"

section \<open>Operations on Python values\<close>

text \<open>Indexing from the end, \<^verbatim>\<open>xs[-k]\<close>.\<close>

definition index_from_end :: "'a list \<Rightarrow> nat \<Rightarrow> error + 'a" where
  "index_from_end xs k =
     (if 1 \<le> k \<and> k \<le> length xs then Inr (xs ! (length xs - k)) else Inl IndexError)"

fun float_add_int :: "pyfloat \<Rightarrow> int \<Rightarrow> pyfloat" where
  "float_add_int (Finite a) n = Finite (a + real_of_int n)"
| "float_add_int x n = x"

text \<open>\<^verbatim>\<open>x + n\<close> for an integer \<open>n\<close>.\<close>

fun py_add_int :: "pyval \<Rightarrow> int \<Rightarrow> error + pyval" where
  "py_add_int (PInt i) n = Inr (PInt (i + n))"
| "py_add_int (PFloat x) n = Inr (PFloat (float_add_int x n))"
| "py_add_int v n = Inl TypeError"

definition parse_int :: "string \<Rightarrow> int option" where
  "parse_int x =
     (case remove_underscores (CHR 0x00) (numeric_strip x) of
        None \<Rightarrow> None
      | Some s \<Rightarrow>
          (let (neg, ds) = split_sign s in
           if ds \<noteq> [] \<and> list_all is_digit ds
           then Some (if neg then - int (digits_val ds) else int (digits_val ds))
           else None))"

text \<open>The builtin \<^verbatim>\<open>int(x)\<close>: a float is truncated towards zero.\<close>

fun py_int :: "pyval \<Rightarrow> error + int" where
  "py_int (PInt i) = Inr i"
| "py_int (PFloat (Finite a)) = Inr (if 0 \<le> a then \<lfloor>a\<rfloor> else \<lceil>a\<rceil>)"
| "py_int (PFloat NaN) = Inl ValueError"
| "py_int (PFloat x) = Inl OverflowError"
| "py_int (PStr s) = (case parse_int s of None \<Rightarrow> Inl ValueError | Some i \<Rightarrow> Inr i)"
| "py_int v = Inl TypeError"

text \<open>\<^verbatim>\<open>Series.get(key, default)\<close>.\<close>

definition series_get :: "series \<Rightarrow> string \<Rightarrow> pyval \<Rightarrow> pyval" where
  "series_get s k d = (case map_of s k of None \<Rightarrow> d | Some v \<Rightarrow> v)"

text \<open>Assignment \<^verbatim>\<open>s[key] = value\<close>: an existing entry is overwritten in
  place, a new one is appended.\<close>

definition setitem :: "series \<Rightarrow> string \<Rightarrow> pyval \<Rightarrow> series" where
  "setitem s k v = AList.update k v s"

section \<open>Logging and exceptions\<close>

text \<open>
  A computation returns the log records it has emitted, and either the
  exception it raised or its value. A record keeps the level, the literal text
  of the message and the values formatted into it.
\<close>

datatype level = INFO | WARNING

datatype log_record = Log level string "pyval list"

type_synonym 'a logged = "log_record list \<times> (error + 'a)"

definition ret :: "'a \<Rightarrow> 'a logged" where
  "ret x = ([], Inr x)"

definition lift :: "error + 'a \<Rightarrow> 'a logged" where
  "lift r = ([], r)"

definition info :: "string \<Rightarrow> pyval list \<Rightarrow> unit logged" where
  "info msg args = ([Log INFO msg args], Inr ())"

definition warning :: "string \<Rightarrow> pyval list \<Rightarrow> unit logged" where
  "warning msg args = ([Log WARNING msg args], Inr ())"

definition and_then :: "'a logged \<Rightarrow> ('a \<Rightarrow> 'b logged) \<Rightarrow> 'b logged" where
  "and_then m f =
     (case m of
        (l, Inl e) \<Rightarrow> (l, Inl e)
      | (l, Inr x) \<Rightarrow> (case f x of (l', r) \<Rightarrow> (l @ l', r)))"

section \<open>Resolving the movie data path\<close>

text \<open>The Till importers look for the first movie extension the location ends
  with; the relative path is the second last part of the Windows path joined
  with the stem, as a path of the running system.\<close>

fun till_path_loop :: "flavour \<Rightarrow> pyval \<Rightarrow> string list \<Rightarrow> error + (int \<times> pyval)" where
  "till_path_loop fl fle [] = Inr (0, PStr ''wrong extension'')"
| "till_path_loop fl fle (extension # rest) =
     (case fle of
        PStr f \<Rightarrow>
          if endswith f extension then
            (let fle_path = parse_parts Windows f in
             case index_from_end (parts fle_path) 2 of
               Inl e \<Rightarrow> Inl e
             | Inr directory \<Rightarrow>
                 Inr (1, PStr (path_str (truediv (parse_parts fl directory)
                                                 (path_stem fle_path)))))
          else till_path_loop fl fle rest
      | _ \<Rightarrow> Inl (AttributeError ''endswith''))"

fun lsm_path_loop :: "flavour \<Rightarrow> pyval \<Rightarrow> string list \<Rightarrow> error + (int \<times> pyval)" where
  "lsm_path_loop fl fle [] = Inr (0, PInt (- 1))"
| "lsm_path_loop fl fle (movie_data_extension # rest) =
     (case fle of
        PStr f \<Rightarrow>
          if endswith f movie_data_extension then
            (let fle_path = parse_parts Windows f in
             case index_from_end (parts fle_path) 3 of
               Inl e \<Rightarrow> Inl e
             | Inr outer \<Rightarrow>
                 (case index_from_end (parts fle_path) 2 of
                    Inl e \<Rightarrow> Inl e
                  | Inr inner \<Rightarrow>
                      Inr (1, PStr (path_str (truediv (truediv (parse_parts fl outer) inner)
                                                      (path_stem fle_path))))))
          else lsm_path_loop fl fle rest
      | _ \<Rightarrow> Inl (AttributeError ''endswith''))"

definition get_path_relative_to_data_dir ::
  "flavour \<Rightarrow> importer \<Rightarrow> pyval \<Rightarrow> error + (int \<times> pyval)" where
  "get_path_relative_to_data_dir fl self fle =
     (case movie_data_extensions self of
        None \<Rightarrow> Inl TypeError
      | Some extensions \<Rightarrow>
          (case cls self of
             LSMImporter \<Rightarrow> lsm_path_loop fl fle extensions
           | _ \<Rightarrow> till_path_loop fl fle extensions))"

section \<open>One row of the measurement list from a Till record\<close>

text \<open>The slice \<^verbatim>\<open>location[-2:]\<close> compared with \<^verbatim>\<open>'ps'\<close>.\<close>

fun tail_is_ps :: "pyval \<Rightarrow> error + bool" where
  "tail_is_ps (PStr s) = Inr (drop (length s - 2) s = ''ps'')"
| "tail_is_ps (PList l) = Inr False"
| "tail_is_ps v = Inl TypeError"

fun append_t :: "pyval \<Rightarrow> error + pyval" where
  "append_t (PStr s) = Inr (PStr (s @ ''t''))"
| "append_t v = Inl TypeError"

definition fix_location :: "pyval \<Rightarrow> pyval logged" where
  "fix_location expected_data_file =
     and_then (lift (tail_is_ps expected_data_file)) (\<lambda>is_ps.
       if is_ps then
         and_then (warning ''adding a t to the .ps file name to make it .pst'' []) (\<lambda>_.
           lift (append_t expected_data_file))
       else ret expected_data_file)"

definition convert_vws_names_to_lst_names ::
  "flavour \<Rightarrow> importer \<Rightarrow> series \<Rightarrow> series \<Rightarrow> series logged" where
  "convert_vws_names_to_lst_names fl self vws_measurement_series default_row =
     and_then (lift (getitem vws_measurement_series ''Label'')) (\<lambda>label.
     and_then (info ''Parsing measurement with label {}'' [label]) (\<lambda>_.
     and_then (lift (getitem vws_measurement_series ''index'')) (\<lambda>index.
     and_then (lift (py_add_int index 1)) (\<lambda>measu.
     let lst_line = setitem default_row ''Measu'' measu in
     and_then (lift (getitem vws_measurement_series ''Label'')) (\<lambda>label.
     let lst_line = setitem lst_line ''Label'' label in
     and_then (lift (getitem vws_measurement_series ''Location'')) (\<lambda>location.
     and_then (fix_location location) (\<lambda>expected_data_file.
     and_then (lift (get_path_relative_to_data_dir fl self expected_data_file))
       (\<lambda>(analyze, dbb1_relative).
     and_then (if analyze = 0
               then warning ''Data file {} not found! Setting analyze=0 for this measurement''
                      [expected_data_file]
               else ret ()) (\<lambda>_.
     let lst_line = setitem lst_line ''DBB1'' dbb1_relative in
     and_then (lift (py_int (series_get lst_line ''Analyze'' (PInt 1)))) (\<lambda>default_analyze.
     let lst_line = setitem lst_line ''Analyze'' (PInt (analyze * default_analyze)) in
     and_then (lift (getitem vws_measurement_series ''dt'')) (\<lambda>dt.
     let lst_line = setitem lst_line ''Cycle'' dt in
     and_then (lift (getitem vws_measurement_series ''MonochromatorWL_nm'')) (\<lambda>wavelength.
     let lst_line = setitem lst_line ''Lambda'' wavelength in
     and_then (lift (getitem vws_measurement_series ''UTCTime'')) (\<lambda>utc.
     let lst_line = setitem lst_line ''UTC'' utc in
       ret lst_line)))))))))))))"

section \<open>The collaborators\<close>

text \<open>
  The vendor log reader, the TIFF tag reader, the date conversion, the
  formatting of time differences and the file dialog are not part of the
  module. They are parameters of the model: a manager object with the three
  methods the importers call, and a world that holds the functions of the
  other libraries and the flavour of the running system.
\<close>

record vws_manager =
  get_all_metadata :: "(series \<Rightarrow> bool) \<Rightarrow> (series \<Rightarrow> series) \<Rightarrow> error + series list"
  get_metadata_two_wavelengths ::
    "int \<times> int \<Rightarrow> (series \<Rightarrow> bool) \<Rightarrow> (series \<Rightarrow> series) \<Rightarrow>
       error + (series list \<times> series list)"
  get_earliest_utc :: "error + pyval"

datatype pyfiles = FileList "string list" | FileStr string

record dialog =
  title_text :: string
  title_args :: "pyval list"
  filetypes :: "pyval list"
  multiple :: bool
  default_path :: string

record world =
  os_flavour :: flavour
  VWSDataManager :: "string \<Rightarrow> error + vws_manager"
  TiffFile_lsm_metadata :: "string \<Rightarrow> error + pyval"
  excel_datetime_timestamp :: "pyval \<Rightarrow> error + pyval"
  timedelta_str :: "pyval \<Rightarrow> pyval \<Rightarrow> error + string"
  fileopenbox :: "dialog \<Rightarrow> pyfiles option"

text \<open>Sequencing of computations that may raise but do not log.\<close>

definition or_raise :: "error + 'a \<Rightarrow> ('a \<Rightarrow> error + 'b) \<Rightarrow> error + 'b" where
  "or_raise r f = (case r of Inl e \<Rightarrow> Inl e | Inr x \<Rightarrow> f x)"

section \<open>Elapsed time\<close>

text \<open>\<^verbatim>\<open>str.split(sep)\<close> for a separator of any positive length.\<close>

function split_str :: "string \<Rightarrow> string \<Rightarrow> string \<Rightarrow> string list" where
  "split_str sep acc [] = [rev acc]"
| "split_str sep acc (c # cs) =
     (if sep \<noteq> [] \<and> take (length sep) (c # cs) = sep
      then rev acc # split_str sep [] (drop (length sep) (c # cs))
      else split_str sep (c # acc) cs)"
  by pat_completeness auto
termination
  by (relation "measure (\<lambda>(sep, acc, s). length s)") auto

definition get_item_at :: "'a list \<Rightarrow> nat \<Rightarrow> error + 'a" where
  "get_item_at xs i = (if i < length xs then Inr (xs ! i) else Inl IndexError)"

definition get_mtime :: "world \<Rightarrow> pyval \<Rightarrow> pyval \<Rightarrow> error + string" where
  "get_mtime w utc first_utc =
     (case timedelta_str w utc first_utc of
        Inl e \<Rightarrow> Inl e
      | Inr time_since_first_utc \<Rightarrow>
          get_item_at (split_str '' days '' [] time_since_first_utc) 1)"

definition set_mtime :: "world \<Rightarrow> pyval \<Rightarrow> series \<Rightarrow> series logged" where
  "set_mtime w first_utc lst_line =
     and_then (lift (getitem lst_line ''UTC'')) (\<lambda>utc.
     and_then (lift (get_mtime w utc first_utc)) (\<lambda>mtime.
       ret (setitem lst_line ''MTime'' (PStr mtime))))"

section \<open>Reading one raw data file\<close>

definition get_default_row :: "importer \<Rightarrow> series" where
  "get_default_row self = default_values self"

subsection \<open>One wavelength\<close>

fun one_wavelength_rows ::
  "world \<Rightarrow> importer \<Rightarrow> pyval \<Rightarrow> series list \<Rightarrow> series list \<Rightarrow> series list logged" where
  "one_wavelength_rows w self first_utc this_lst_frame [] = ret this_lst_frame"
| "one_wavelength_rows w self first_utc this_lst_frame (measurement_row # rest) =
     and_then (convert_vws_names_to_lst_names (os_flavour w) self measurement_row
                 (get_default_row self)) (\<lambda>lst_line.
     and_then (set_mtime w first_utc lst_line) (\<lambda>lst_line.
       one_wavelength_rows w self first_utc (this_lst_frame @ [lst_line]) rest))"

definition TillImporterOneWavelength_read ::
  "world \<Rightarrow> importer \<Rightarrow> string \<Rightarrow> (series \<Rightarrow> bool) \<Rightarrow> series list logged" where
  "TillImporterOneWavelength_read w self fle measurement_filter =
     and_then (lift (VWSDataManager w fle)) (\<lambda>vws_manager.
     and_then (lift (get_all_metadata vws_manager measurement_filter additional_cols_func))
       (\<lambda>measurements.
     and_then (lift (get_earliest_utc vws_manager)) (\<lambda>first_utc.
     and_then (if length measurements = 0
               then warning
                 ''In {}: No usable measurements found for given 'measurement_filter' function''
                 [PStr fle]
               else ret ()) (\<lambda>_.
       one_wavelength_rows w self first_utc [] measurements))))"

subsection \<open>Two wavelengths\<close>

definition two_wavelength_pair ::
  "world \<Rightarrow> importer \<Rightarrow> pyval \<Rightarrow> series \<Rightarrow> series \<Rightarrow> (series \<times> series) logged" where
  "two_wavelength_pair w self first_utc measurement_wl340 measurement_wl380 =
     and_then (convert_vws_names_to_lst_names (os_flavour w) self measurement_wl340
                 (get_default_row self)) (\<lambda>lst_line_wl340.
     and_then (convert_vws_names_to_lst_names (os_flavour w) self measurement_wl380
                 (get_default_row self)) (\<lambda>lst_line_wl380.
     and_then (lift (getitem lst_line_wl380 ''DBB1'')) (\<lambda>dbb1_wl380.
     let lst_line_wl340 = setitem lst_line_wl340 ''dbb2'' dbb1_wl380 in
     and_then (set_mtime w first_utc lst_line_wl340) (\<lambda>lst_line_wl340.
     let lst_line_wl380 = setitem lst_line_wl380 ''Analyze'' (PInt 0) in
     and_then (set_mtime w first_utc lst_line_wl380) (\<lambda>lst_line_wl380.
       ret (lst_line_wl340, lst_line_wl380))))))"

fun two_wavelength_rows ::
  "world \<Rightarrow> importer \<Rightarrow> pyval \<Rightarrow> series list \<Rightarrow> (series \<times> series) list \<Rightarrow>
     series list logged" where
  "two_wavelength_rows w self first_utc this_lst_frame [] = ret this_lst_frame"
| "two_wavelength_rows w self first_utc this_lst_frame
     ((measurement_wl340, measurement_wl380) # rest) =
     and_then (two_wavelength_pair w self first_utc measurement_wl340 measurement_wl380)
       (\<lambda>(lst_line_wl340, lst_line_wl380).
          two_wavelength_rows w self first_utc
            ((this_lst_frame @ [lst_line_wl340]) @ [lst_line_wl380]) rest)"

definition TillImporterTwoWavelength_read ::
  "world \<Rightarrow> importer \<Rightarrow> string \<Rightarrow> (series \<Rightarrow> bool) \<Rightarrow> series list logged" where
  "TillImporterTwoWavelength_read w self fle measurement_filter =
     and_then (lift (VWSDataManager w fle)) (\<lambda>vws_manager.
     and_then (lift (get_metadata_two_wavelengths vws_manager (340, 380) measurement_filter
                       additional_cols_func)) (\<lambda>(measurements_wl340_df, measurements_wl380_df).
     and_then (lift (get_earliest_utc vws_manager)) (\<lambda>first_utc.
       two_wavelength_rows w self first_utc []
         (zip measurements_wl340_df measurements_wl380_df))))"

subsection \<open>Image series\<close>

fun py_getitem :: "pyval \<Rightarrow> string \<Rightarrow> error + pyval" where
  "py_getitem (PDict d) k = (case map_of d k of None \<Rightarrow> Inl (KeyError k) | Some v \<Rightarrow> Inr v)"
| "py_getitem v k = Inl TypeError"

fun py_first :: "pyval \<Rightarrow> error + pyval" where
  "py_first (PList l) = get_item_at l 0"
| "py_first (PStr s) = (if s = [] then Inl IndexError else Inr (PStr [hd s]))"
| "py_first (PDict d) = Inl (KeyError ''0'')"
| "py_first v = Inl TypeError"

fun float_mul_int :: "pyfloat \<Rightarrow> int \<Rightarrow> pyfloat" where
  "float_mul_int (Finite a) n = Finite (a * real_of_int n)"
| "float_mul_int NaN n = NaN"
| "float_mul_int PosInf n = (if 0 < n then PosInf else if n < 0 then NegInf else NaN)"
| "float_mul_int NegInf n = (if 0 < n then NegInf else if n < 0 then PosInf else NaN)"

text \<open>\<^verbatim>\<open>x * n\<close> for an integer \<open>n\<close>: sequences are repeated.\<close>

fun py_mul_int :: "pyval \<Rightarrow> int \<Rightarrow> error + pyval" where
  "py_mul_int (PInt i) n = Inr (PInt (i * n))"
| "py_mul_int (PFloat x) n = Inr (PFloat (float_mul_int x n))"
| "py_mul_int (PStr s) n = Inr (PStr (concat (replicate (nat n) s)))"
| "py_mul_int (PList l) n = Inr (PList (concat (replicate (nat n) l)))"
| "py_mul_int v n = Inl TypeError"

fun float_div_real :: "pyfloat \<Rightarrow> real \<Rightarrow> pyfloat" where
  "float_div_real (Finite a) d = Finite (a / d)"
| "float_div_real NaN d = NaN"
| "float_div_real PosInf d = (if 0 < d then PosInf else NegInf)"
| "float_div_real NegInf d = (if 0 < d then NegInf else PosInf)"

text \<open>\<^verbatim>\<open>x / 1e-6\<close>.\<close>

fun py_div_micro :: "pyval \<Rightarrow> error + pyval" where
  "py_div_micro (PInt i) = Inr (PFloat (Finite (real_of_int i / (1 / 1000000))))"
| "py_div_micro (PFloat x) = Inr (PFloat (float_div_real x (1 / 1000000)))"
| "py_div_micro v = Inl TypeError"

definition getitem2 :: "pyval \<Rightarrow> string \<Rightarrow> string \<Rightarrow> error + pyval" where
  "getitem2 d k1 k2 = or_raise (py_getitem d k1) (\<lambda>v. py_getitem v k2)"

definition first_track_wavelength :: "pyval \<Rightarrow> error + pyval" where
  "first_track_wavelength lsm_metadata =
     or_raise (getitem2 lsm_metadata ''ScanInformation'' ''Tracks'') (\<lambda>tracks.
     or_raise (py_first tracks) (\<lambda>track.
     or_raise (py_getitem track ''IlluminationChannels'') (\<lambda>channels.
     or_raise (py_first channels) (\<lambda>channel.
       py_getitem channel ''Wavelength''))))"

definition convert_lsm_metadata_to_lst_row ::
  "world \<Rightarrow> importer \<Rightarrow> int \<Rightarrow> string \<Rightarrow> pyval \<Rightarrow> series \<Rightarrow> error + series" where
  "convert_lsm_metadata_to_lst_row w self measu fle lsm_metadata default_row =
     or_raise (getitem2 lsm_metadata ''ScanInformation'' ''Name'') (\<lambda>name.
     let lst_line = setitem default_row ''Label'' name in
     or_raise (py_getitem lsm_metadata ''TimeIntervall'') (\<lambda>interval.
     or_raise (py_mul_int interval 1000) (\<lambda>cycle.
     let lst_line = setitem lst_line ''Cycle'' cycle in
     or_raise (first_track_wavelength lsm_metadata) (\<lambda>wavelength.
     let lst_line = setitem lst_line ''Lambda'' wavelength in
     or_raise (getitem2 lsm_metadata ''ScanInformation'' ''Sample0time'') (\<lambda>sample0time.
     or_raise (excel_datetime_timestamp w sample0time) (\<lambda>utc.
     let lst_line = setitem lst_line ''UTC'' utc in
     or_raise (py_getitem lsm_metadata ''VoxelSizeX'') (\<lambda>voxel_x.
     or_raise (py_div_micro voxel_x) (\<lambda>px_x.
     let lst_line = setitem lst_line ''PxSzX'' px_x in
     or_raise (py_getitem lsm_metadata ''VoxelSizeY'') (\<lambda>voxel_y.
     or_raise (py_div_micro voxel_y) (\<lambda>px_y.
     let lst_line = setitem lst_line ''PxSzY'' px_y in
     or_raise (get_path_relative_to_data_dir (os_flavour w) self (PStr fle))
       (\<lambda>(analyze, dbb1_relative).
     let lst_line = setitem lst_line ''DBB1'' dbb1_relative in
     let lst_line = setitem lst_line ''Analyze'' (PInt analyze) in
     let lst_line = setitem lst_line ''Measu'' (PInt measu) in
       Inr lst_line)))))))))))"

definition LSMImporter_read ::
  "world \<Rightarrow> importer \<Rightarrow> string \<Rightarrow> nat \<Rightarrow> series list logged" where
  "LSMImporter_read w self fle fle_ind =
     and_then (lift (TiffFile_lsm_metadata w fle)) (\<lambda>lsm_metadata.
     and_then (lift (convert_lsm_metadata_to_lst_row w self (int fle_ind + 1) fle lsm_metadata
                       (get_default_row self))) (\<lambda>lst_row.
       ret [lst_row]))"

subsection \<open>Dispatch on the class, and the import of a list of files\<close>

definition read_single_measurement_metadata ::
  "world \<Rightarrow> importer \<Rightarrow> string \<Rightarrow> nat \<Rightarrow> (series \<Rightarrow> bool) \<Rightarrow> series list logged" where
  "read_single_measurement_metadata w self fle fle_ind measurement_filter =
     (case cls self of
        TillImporterOneWavelength \<Rightarrow> TillImporterOneWavelength_read w self fle measurement_filter
      | TillImporterTwoWavelength \<Rightarrow> TillImporterTwoWavelength_read w self fle measurement_filter
      | LSMImporter \<Rightarrow> LSMImporter_read w self fle fle_ind)"

fun import_loop ::
  "world \<Rightarrow> importer \<Rightarrow> (series \<Rightarrow> bool) \<Rightarrow> series list \<Rightarrow> (nat \<times> string) list \<Rightarrow>
     series list logged" where
  "import_loop w self measurement_filter combined_df [] = ret combined_df"
| "import_loop w self measurement_filter combined_df ((fle_ind, fle) # rest) =
     and_then (info ''Parsing metadata from {}'' [PStr fle]) (\<lambda>_.
     and_then (read_single_measurement_metadata w self fle fle_ind measurement_filter) (\<lambda>df.
       import_loop w self measurement_filter (combined_df @ df) rest))"

definition import_metadata ::
  "world \<Rightarrow> importer \<Rightarrow> string list \<Rightarrow> (series \<Rightarrow> bool) \<Rightarrow> series list logged" where
  "import_metadata w self raw_data_files measurement_filter =
     import_loop w self measurement_filter [] (enumerate 0 raw_data_files)"

section \<open>Grouping the chosen files by subject\<close>

text \<open>The dialog returns a list of file names, or one file name when a single
  choice was asked for; a string is then a sequence of its characters.\<close>

fun py_seq :: "pyfiles \<Rightarrow> string list" where
  "py_seq (FileList fs) = fs"
| "py_seq (FileStr s) = map (\<lambda>c. [c]) s"

fun pyval_of_files :: "pyfiles \<Rightarrow> pyval" where
  "pyval_of_files (FileList fs) = PList (map PStr fs)"
| "pyval_of_files (FileStr s) = PStr s"

type_synonym tag_mapping = "(string \<times> pyfiles) list"

definition animal_tag :: "flavour \<Rightarrow> string \<Rightarrow> string" where
  "animal_tag fl fle = hd (split_char CHR ''.'' (path_name (parse_parts fl fle)))"

fun till_mapping_loop :: "flavour \<Rightarrow> tag_mapping \<Rightarrow> string list \<Rightarrow> tag_mapping" where
  "till_mapping_loop fl dict2return [] = dict2return"
| "till_mapping_loop fl dict2return (fle # rest) =
     till_mapping_loop fl (AList.update (animal_tag fl fle) (FileList [fle]) dict2return) rest"

definition TillImporter_get_animal_tag_raw_data_mapping ::
  "flavour \<Rightarrow> pyfiles \<Rightarrow> tag_mapping" where
  "TillImporter_get_animal_tag_raw_data_mapping fl files_chosen =
     (if length (py_seq files_chosen) = 0 then []
      else till_mapping_loop fl [] (py_seq files_chosen))"

definition LSMImporter_get_animal_tag_raw_data_mapping ::
  "flavour \<Rightarrow> pyfiles \<Rightarrow> error + tag_mapping" where
  "LSMImporter_get_animal_tag_raw_data_mapping fl files_chosen =
     (if length (py_seq files_chosen) = 0 then Inr []
      else
        (let parents = map (\<lambda>fle. path_parent (parse_parts fl fle)) (py_seq files_chosen) in
         if list_all (\<lambda>x. path_eq x (hd parents)) parents
         then Inr [(path_name (path_parent (hd parents)), files_chosen)]
         else Inl (AssertionError
                ''LSM files specified for constructing measurement list file do no belong to the same directory: {}''
                [pyval_of_files files_chosen])))"

definition get_animal_tag_raw_data_mapping ::
  "flavour \<Rightarrow> importer \<Rightarrow> pyfiles \<Rightarrow> error + tag_mapping" where
  "get_animal_tag_raw_data_mapping fl self files_chosen =
     (case cls self of
        LSMImporter \<Rightarrow> LSMImporter_get_animal_tag_raw_data_mapping fl files_chosen
      | _ \<Rightarrow> Inr (TillImporter_get_animal_tag_raw_data_mapping fl files_chosen))"

section \<open>Asking for the files\<close>

definition opt_pyval :: "('a \<Rightarrow> pyval) \<Rightarrow> 'a option \<Rightarrow> pyval" where
  "opt_pyval f x = (case x of None \<Rightarrow> PNone | Some v \<Rightarrow> f v)"

definition get_filetype_info_string :: "importer \<Rightarrow> error + pyval list" where
  "get_filetype_info_string self =
     (case associated_extensions self of
        None \<Rightarrow> Inl TypeError
      | Some extensions \<Rightarrow>
          Inr (map (\<lambda>x. PStr (''*'' @ x)) extensions @
               [opt_pyval PStr (associate_file_type self)]))"

text \<open>The call of the file dialog, with the arguments the method builds.\<close>

definition choose_files :: "world \<Rightarrow> importer \<Rightarrow> string \<Rightarrow> bool \<Rightarrow> error + pyfiles option" where
  "choose_files w self default_dir mult =
     (let default_dir_str =
            path_str (truediv (parse_parts (os_flavour w) default_dir) ''*'') in
      or_raise (get_filetype_info_string self) (\<lambda>types.
        Inr (fileopenbox w
               \<lparr>title_text = ''Choose one or more files for LE_loadExp={}'',
                title_args = [opt_pyval PInt (LE_loadExp self)],
                filetypes = types, multiple = mult, default_path = default_dir_str\<rparr>)))"

definition ask_for_files :: "world \<Rightarrow> importer \<Rightarrow> string \<Rightarrow> bool \<Rightarrow> tag_mapping logged" where
  "ask_for_files w self default_dir mult =
     and_then (lift (choose_files w self default_dir mult)) (\<lambda>chosen.
       case chosen of
         None \<Rightarrow> lift (Inl (IOError ''User Abort while choosing files.''))
       | Some files_chosen \<Rightarrow>
           and_then (lift (get_item_at (py_seq files_chosen) 0)) (\<lambda>first_file.
           if \<not> startswith first_file default_dir then
             lift (Inl (AssertionError
               (''The data selected in not in the expected data directory of the current tree:''
                  @ [CHR 0x0A] @ ''{}. Please copy your data there and try again!'')
               [PStr default_dir]))
           else
             and_then (lift (get_animal_tag_raw_data_mapping (os_flavour w) self files_chosen))
               (\<lambda>animal_tag_raw_data_mapping.
             and_then (info
               (''Working on the following animal tags and their corresponding files:''
                  @ [CHR 0x0A] @ ''{}'')
               [PDict (map (\<lambda>(k, v). (k, pyval_of_files v)) animal_tag_raw_data_mapping)])
               (\<lambda>_. ret animal_tag_raw_data_mapping))))"

section \<open>A reference raw metadata source\<close>

text \<open>
  Modelled from the spec: the vendor log reader (\<^verbatim>\<open>VWSDataManager\<close> of the
  \<^verbatim>\<open>tillvisionio\<close> package) is not part of the module. For a file it yields
  the raw records of the log, already keyed by the vendor's field names; it
  extracts the records that pass the filter and injects the extra computed
  columns into each; for two wavelengths it yields one such sequence per
  wavelength; and it knows the earliest timestamp of the file.
\<close>

definition inject_cols :: "(series \<Rightarrow> series) \<Rightarrow> series \<Rightarrow> series" where
  "inject_cols cols_func measurement =
     foldl (\<lambda>row (k, v). setitem row k v) measurement (cols_func measurement)"

definition vws_rows ::
  "(series \<Rightarrow> bool) \<Rightarrow> (series \<Rightarrow> series) \<Rightarrow> series list \<Rightarrow> series list" where
  "vws_rows flt cols_func records = map (inject_cols cols_func) (filter flt records)"

definition with_wavelength :: "int \<Rightarrow> series list \<Rightarrow> series list" where
  "with_wavelength wl records =
     filter (\<lambda>m. map_of m ''MonochromatorWL_nm'' = Some (PInt wl)) records"

definition vws_manager_of :: "series list \<Rightarrow> pyval \<Rightarrow> vws_manager" where
  "vws_manager_of records earliest =
     \<lparr>get_all_metadata = (\<lambda>flt cols_func. Inr (vws_rows flt cols_func records)),
      get_metadata_two_wavelengths =
        (\<lambda>(wl1, wl2) flt cols_func.
           Inr (vws_rows flt cols_func (with_wavelength wl1 records),
                vws_rows flt cols_func (with_wavelength wl2 records))),
      get_earliest_utc = Inr earliest\<rparr>"

section \<open>The records an import consumes\<close>

text \<open>What the raw source hands over for one file: the records that survive
  the filter, and for two wavelengths the records paired by position. A file
  that cannot be read has none.\<close>

definition records_surviving :: "world \<Rightarrow> string \<Rightarrow> (series \<Rightarrow> bool) \<Rightarrow> series list" where
  "records_surviving w fle flt =
     (case VWSDataManager w fle of
        Inl e \<Rightarrow> []
      | Inr vws_manager \<Rightarrow>
          (case get_all_metadata vws_manager flt additional_cols_func of
             Inl e \<Rightarrow> []
           | Inr measurements \<Rightarrow> measurements))"

definition records_paired ::
  "world \<Rightarrow> string \<Rightarrow> (series \<Rightarrow> bool) \<Rightarrow> (series \<times> series) list" where
  "records_paired w fle flt =
     (case VWSDataManager w fle of
        Inl e \<Rightarrow> []
      | Inr vws_manager \<Rightarrow>
          (case get_metadata_two_wavelengths vws_manager (340, 380) flt additional_cols_func of
             Inl e \<Rightarrow> []
           | Inr (wl340, wl380) \<Rightarrow> zip wl340 wl380))"

text \<open>The row carries, as its \<^verbatim>\<open>Measu\<close>, the index of the record plus one.\<close>

definition measu_from_index :: "series \<Rightarrow> series \<Rightarrow> bool" where
  "measu_from_index row m \<longleftrightarrow>
     (case getitem m ''index'' of
        Inl e \<Rightarrow> False
      | Inr index \<Rightarrow>
          (case py_add_int index 1 of
             Inl e \<Rightarrow> False
           | Inr measu \<Rightarrow> map_of row ''Measu'' = Some measu))"

section \<open>Plain path components\<close>

text \<open>A directory or file name with no separator and no colon in it, other
  than the single dot.\<close>

definition plain_name :: "string \<Rightarrow> bool" where
  "plain_name n \<longleftrightarrow>
     n \<noteq> [] \<and> n \<noteq> ''.'' \<and> bslash \<notin> set n \<and> slash \<notin> set n \<and> CHR '':'' \<notin> set n"

section \<open>Example data\<close>

text \<open>Two vendor logs and two image files, on a POSIX system. The first record
  of the first log has a single timestamp; the record of the second log points
  to a file that is no movie.\<close>

definition accept_all :: "series \<Rightarrow> bool" where
  "accept_all s = True"

definition win_path :: "string list \<Rightarrow> string" where
  "win_path ps = join_str [bslash] ps"

definition raw_record :: "string \<Rightarrow> int \<Rightarrow> string \<Rightarrow> string \<Rightarrow> int \<Rightarrow> series" where
  "raw_record label i location timing wl =
     [(''Label'', PStr label), (''index'', PInt i), (''Location'', PStr location),
      (''Timing_ms'', PStr timing), (''MonochromatorWL_nm'', PInt wl),
      (''UTCTime'', PInt 1000)]"

definition bee1_records :: "series list" where
  "bee1_records =
     [raw_record ''m1'' 0 (win_path [''C:'', ''data'', ''bee1'', ''m1.pst'']) ''5'' 340,
      raw_record ''m2'' 1 (win_path [''C:'', ''data'', ''bee1'', ''m2.ps'']) ''0 100 200 300'' 380]"

definition bee2_records :: "series list" where
  "bee2_records =
     [raw_record ''n1'' 0 (win_path [''C:'', ''data'', ''bee2'', ''n1.txt'']) ''0 50'' 340]"

definition example_lsm_metadata :: pyval where
  "example_lsm_metadata =
     PDict [(''ScanInformation'',
             PDict [(''Name'', PStr ''scan1''),
                    (''Tracks'', PList [PDict [(''IlluminationChannels'',
                        PList [PDict [(''Wavelength'', PFloat (Finite 488))]])]]),
                    (''Sample0time'', PFloat (Finite 43000))]),
            (''TimeIntervall'', PFloat (Finite (1 / 2))),
            (''VoxelSizeX'', PFloat (Finite (1 / 1000000))),
            (''VoxelSizeY'', PFloat (Finite (1 / 500000)))]"

definition example_world :: "pyfiles option \<Rightarrow> world" where
  "example_world answer =
     \<lparr>os_flavour = Posix,
      VWSDataManager = (\<lambda>fle.
        if fle = ''/data/bee1.vws.log'' then Inr (vws_manager_of bee1_records (PInt 1000))
        else if fle = ''/data/bee2.vws.log'' then Inr (vws_manager_of bee2_records (PInt 1000))
        else Inl (ExternalError ''FileNotFoundError'')),
      TiffFile_lsm_metadata = (\<lambda>fle.
        if endswith fle ''.lsm'' then Inr example_lsm_metadata
        else Inl (ExternalError ''FileNotFoundError'')),
      excel_datetime_timestamp = (\<lambda>v. Inr v),
      timedelta_str = (\<lambda>utc first_utc. Inr ''0 days 00:00:00''),
      fileopenbox = (\<lambda>d. answer)\<rparr>"

definition example_defaults :: series where
  "example_defaults = [(''Analyze'', PInt 1)]"

definition example_one :: importer where
  "example_one = new_importer TillImporterOneWavelength example_defaults"

definition example_two :: importer where
  "example_two = new_importer TillImporterTwoWavelength example_defaults"

definition example_lsm :: importer where
  "example_lsm = new_importer LSMImporter example_defaults"

definition example_table_one :: "series list" where
  "example_table_one =
     [[(''Analyze'', PInt 1), (''Measu'', PInt 1), (''Label'', PStr ''m1''),
       (''DBB1'', PStr ''bee1/m1''), (''Cycle'', PInt (- 1)), (''Lambda'', PInt 340),
       (''UTC'', PInt 1000), (''MTime'', PStr ''00:00:00'')],
      [(''Analyze'', PInt 1), (''Measu'', PInt 2), (''Label'', PStr ''m2''),
       (''DBB1'', PStr ''bee1/m2''), (''Cycle'', PFloat (Finite 100)), (''Lambda'', PInt 380),
       (''UTC'', PInt 1000), (''MTime'', PStr ''00:00:00'')],
      [(''Analyze'', PInt 0), (''Measu'', PInt 1), (''Label'', PStr ''n1''),
       (''DBB1'', PStr ''wrong extension''), (''Cycle'', PFloat (Finite 50)),
       (''Lambda'', PInt 340), (''UTC'', PInt 1000), (''MTime'', PStr ''00:00:00'')]]"

definition example_table_two :: "series list" where
  "example_table_two =
     [[(''Analyze'', PInt 1), (''Measu'', PInt 1), (''Label'', PStr ''m1''),
       (''DBB1'', PStr ''bee1/m1''), (''Cycle'', PInt (- 1)), (''Lambda'', PInt 340),
       (''UTC'', PInt 1000), (''dbb2'', PStr ''bee1/m2''), (''MTime'', PStr ''00:00:00'')],
      [(''Analyze'', PInt 0), (''Measu'', PInt 2), (''Label'', PStr ''m2''),
       (''DBB1'', PStr ''bee1/m2''), (''Cycle'', PFloat (Finite 100)), (''Lambda'', PInt 380),
       (''UTC'', PInt 1000), (''MTime'', PStr ''00:00:00'')]]"

definition example_table_lsm :: "series list" where
  "example_table_lsm =
     [[(''Analyze'', PInt 1), (''Label'', PStr ''scan1''), (''Cycle'', PFloat (Finite 500)),
       (''Lambda'', PFloat (Finite 488)), (''UTC'', PFloat (Finite 43000)),
       (''PxSzX'', PFloat (Finite 1)), (''PxSzY'', PFloat (Finite 2)),
       (''DBB1'', PStr ''bee1/day1/a''), (''Measu'', PInt 1)],
      [(''Analyze'', PInt 1), (''Label'', PStr ''scan1''), (''Cycle'', PFloat (Finite 500)),
       (''Lambda'', PFloat (Finite 488)), (''UTC'', PFloat (Finite 43000)),
       (''PxSzX'', PFloat (Finite 1)), (''PxSzY'', PFloat (Finite 2)),
       (''DBB1'', PStr ''bee1/day1/b''), (''Measu'', PInt 2)]]"

section \<open>Selecting an importer\<close>

definition get_importer_class :: "int \<Rightarrow> error + importer_class" where
  "get_importer_class code =
     (if code = 3 then Inr TillImporterOneWavelength
      else if code = 4 then Inr TillImporterTwoWavelength
      else if code = 20 then Inr LSMImporter
      else Inl NotImplementedError)"

definition get_setup_extension :: "int \<Rightarrow> error + attr" where
  "get_setup_extension code =
     (case get_importer_class code of
        Inl e \<Rightarrow> Inl e
      | Inr importer_class \<Rightarrow> getattr (new_importer importer_class []) ''movie_data_extension'')"

section \<open>Properties\<close>

subsection \<open>Importer selection\<close>

text \<open>
  C8: the selection function returns the SingleWavelength importer for code 3,
  the DualWavelength importer for code 4 and the ImageSeries importer for
  code 20, and fails with the unsupported-type error for every other code.
\<close>

theorem get_importer_class_spec:
  "get_importer_class 3 = Inr TillImporterOneWavelength \<and>
   get_importer_class 4 = Inr TillImporterTwoWavelength \<and>
   get_importer_class 20 = Inr LSMImporter \<and>
   (\<forall>code. code \<noteq> 3 \<and> code \<noteq> 4 \<and> code \<noteq> 20 \<longrightarrow>
      get_importer_class code = Inl NotImplementedError)"
  by (simp add: get_importer_class_def)

theorem get_importer_class_spec_witness:
  "(7::int) \<noteq> 3 \<and> (7::int) \<noteq> 4 \<and> (7::int) \<noteq> 20 \<and>
   get_importer_class 7 = Inl NotImplementedError"
  using get_importer_class_spec by simp

text \<open>
  C9: for each supported code the setup-extension query ends in an attribute
  error on the name \<^verbatim>\<open>movie_data_extension\<close>: the instances only carry
  \<^verbatim>\<open>movie_data_extensions\<close>. For every other code the selection has already
  failed, so the function returns normally for no code at all.
\<close>

theorem get_setup_extension_raises:
  "get_setup_extension 3 = Inl (AttributeError ''movie_data_extension'') \<and>
   get_setup_extension 4 = Inl (AttributeError ''movie_data_extension'') \<and>
   get_setup_extension 20 = Inl (AttributeError ''movie_data_extension'') \<and>
   (\<forall>code. \<exists>e. get_setup_extension code = Inl e) \<and>
   (\<forall>c dv. map_of (instance_dict (new_importer c dv)) ''movie_data_extensions'' \<noteq> None \<and>
      map_of (instance_dict (new_importer c dv)) ''movie_data_extension'' = None)"
proof -
  have att: "getattr (new_importer c []) ''movie_data_extension''
               = Inl (AttributeError ''movie_data_extension'')" for c
    by (cases c)
      (simp_all add: getattr_def instance_dict_def BaseImporter_methods_def
        TillImporterOneWavelength_init_def TillImporterTwoWavelength_init_def
        LSMImporter_init_def TillImporter_init_def BaseImporter_init_def)
  have sel: "get_setup_extension code =
      (if code = 3 \<or> code = 4 \<or> code = 20
       then Inl (AttributeError ''movie_data_extension'') else Inl NotImplementedError)" for code
    using att [of TillImporterOneWavelength] att [of TillImporterTwoWavelength]
      att [of LSMImporter]
    by (simp add: get_setup_extension_def get_importer_class_def)
  have plural: "map_of (instance_dict (new_importer c dv)) ''movie_data_extensions'' \<noteq> None \<and>
      map_of (instance_dict (new_importer c dv)) ''movie_data_extension'' = None"
    for c dv
    by (simp add: instance_dict_def)
  show ?thesis
    using plural by (simp add: sel)
qed

subsection \<open>Frame interval\<close>

lemma split_char_no_sep: "sep \<notin> set t \<Longrightarrow> split_char sep t = [t]"
  by (induction t) auto

lemma split_char_append:
  "sep \<notin> set t \<Longrightarrow> split_char sep (t @ sep # rest) = t # split_char sep rest"
  by (induction t) auto

lemma split_char_join:
  "toks \<noteq> [] \<Longrightarrow> \<forall>t\<in>set toks. sep \<notin> set t \<Longrightarrow>
   split_char sep (join_str [sep] toks) = toks"
  by (induction "[sep]" toks rule: join_str.induct)
     (simp_all add: split_char_no_sep split_char_append)

lemma join_str_hd:
  "toks \<noteq> [] \<Longrightarrow> hd toks \<noteq> [] \<Longrightarrow>
   join_str sep toks \<noteq> [] \<and> hd (join_str sep toks) = hd (hd toks)"
  by (induction sep toks rule: join_str.induct) simp_all





lemmas float_eval =
  strip_def is_space_def numeric_strip_def is_c_space_def py_float_def split_sign_def
  parse_decimal_def parse_exponent_def is_digit_def digits_val_def digit_val_def scale10_def
  float_div_int_def lower_def




subsection \<open>Sequencing\<close>

lemma and_then_result:
  "snd (and_then m f) = (case snd m of Inl e \<Rightarrow> Inl e | Inr x \<Rightarrow> snd (f x))"
  by (cases m) (auto simp: and_then_def split: sum.splits prod.splits)

lemma and_then_log:
  "fst (and_then m f) = (case snd m of Inl e \<Rightarrow> fst m | Inr x \<Rightarrow> fst m @ fst (f x))"
  by (cases m) (auto simp: and_then_def split: sum.splits prod.splits)

lemma and_then_Inr:
  "snd (and_then m f) = Inr y \<longleftrightarrow> (\<exists>x. snd m = Inr x \<and> snd (f x) = Inr y)"
  by (simp add: and_then_result split: sum.splits)

lemma snd_lift [simp]: "snd (lift r) = r"
  by (simp add: lift_def)

lemma snd_ret [simp]: "snd (ret x) = Inr x"
  by (simp add: ret_def)

lemma snd_info [simp]: "snd (info msg args) = Inr ()"
  by (simp add: info_def)

lemma snd_warning [simp]: "snd (warning msg args) = Inr ()"
  by (simp add: warning_def)

lemma or_raise_Inr:
  "or_raise r f = Inr y \<longleftrightarrow> (\<exists>x. r = Inr x \<and> f x = Inr y)"
  by (simp add: or_raise_def split: sum.splits)

lemma map_of_setitem: "map_of (setitem s k v) k' = (if k' = k then Some v else map_of s k')"
  by (simp add: setitem_def update_conv')

subsection \<open>The import loop\<close>

lemma import_loop_result:
  "snd (import_loop w self flt combined files) = Inr table \<Longrightarrow>
   \<exists>dfs. table = combined @ concat dfs \<and>
     list_all2 (\<lambda>df (fle_ind, fle).
        snd (read_single_measurement_metadata w self fle fle_ind flt) = Inr df) dfs files"
proof (induction files arbitrary: combined)
  case Nil
  then show ?case by simp
next
  case (Cons a files)
  obtain fle_ind fle where a: "a = (fle_ind, fle)" by (cases a)
  from Cons.prems obtain df where
    df: "snd (read_single_measurement_metadata w self fle fle_ind flt) = Inr df"
    and rest: "snd (import_loop w self flt (combined @ df) files) = Inr table"
    by (auto simp: a and_then_Inr)
  from Cons.IH [OF rest] obtain dfs where
    "table = (combined @ df) @ concat dfs"
    "list_all2 (\<lambda>df (fle_ind, fle).
        snd (read_single_measurement_metadata w self fle fle_ind flt) = Inr df) dfs files"
    by blast
  with df a show ?case
    by (intro exI [of _ "df # dfs"]) simp
qed

lemma one_wavelength_rows_result:
  "snd (one_wavelength_rows w self first_utc frame ms) = Inr out \<Longrightarrow>
   \<exists>rows. out = frame @ rows \<and>
     list_all2 (\<lambda>row m. \<exists>lst_line.
        snd (convert_vws_names_to_lst_names (os_flavour w) self m (get_default_row self))
          = Inr lst_line \<and>
        snd (set_mtime w first_utc lst_line) = Inr row) rows ms"
proof (induction ms arbitrary: frame)
  case Nil
  then show ?case by simp
next
  case (Cons m ms)
  from Cons.prems obtain lst_line row where
    conv: "snd (convert_vws_names_to_lst_names (os_flavour w) self m (get_default_row self))
             = Inr lst_line"
    and mt: "snd (set_mtime w first_utc lst_line) = Inr row"
    and rest: "snd (one_wavelength_rows w self first_utc (frame @ [row]) ms) = Inr out"
    by (auto simp: and_then_Inr)
  from Cons.IH [OF rest] obtain rows where
    "out = (frame @ [row]) @ rows"
    "list_all2 (\<lambda>row m. \<exists>lst_line.
        snd (convert_vws_names_to_lst_names (os_flavour w) self m (get_default_row self))
          = Inr lst_line \<and>
        snd (set_mtime w first_utc lst_line) = Inr row) rows ms"
    by blast
  with conv mt show ?case
    by (intro exI [of _ "row # rows"]) auto
qed

lemma two_wavelength_rows_result:
  "snd (two_wavelength_rows w self first_utc frame prs) = Inr out \<Longrightarrow>
   \<exists>rows. out = frame @ concat (map (\<lambda>(a, b). [a, b]) rows) \<and>
     list_all2 (\<lambda>r p.
        snd (two_wavelength_pair w self first_utc (fst p) (snd p)) = Inr r) rows prs"
proof (induction prs arbitrary: frame)
  case Nil
  then show ?case by simp
next
  case (Cons p prs)
  obtain m1 m2 where p: "p = (m1, m2)" by (cases p)
  from Cons.prems obtain r1 r2 where
    pair: "snd (two_wavelength_pair w self first_utc m1 m2) = Inr (r1, r2)"
    and rest: "snd (two_wavelength_rows w self first_utc ((frame @ [r1]) @ [r2]) prs) = Inr out"
    by (auto simp: p and_then_Inr)
  from Cons.IH [OF rest] obtain rows where
    "out = ((frame @ [r1]) @ [r2]) @ concat (map (\<lambda>(a, b). [a, b]) rows)"
    "list_all2 (\<lambda>r p.
        snd (two_wavelength_pair w self first_utc (fst p) (snd p)) = Inr r) rows prs"
    by blast
  with pair p show ?case
    by (intro exI [of _ "(r1, r2) # rows"]) auto
qed

subsection \<open>Row counts\<close>

lemma one_wavelength_read_result:
  assumes "snd (TillImporterOneWavelength_read w self fle flt) = Inr df"
  shows "list_all2 (\<lambda>row m. \<exists>lst_line first_utc.
        snd (convert_vws_names_to_lst_names (os_flavour w) self m (get_default_row self))
          = Inr lst_line \<and>
        snd (set_mtime w first_utc lst_line) = Inr row) df (records_surviving w fle flt)"
proof -
  from assms obtain vws_manager measurements first_utc where
    "VWSDataManager w fle = Inr vws_manager"
    "get_all_metadata vws_manager flt additional_cols_func = Inr measurements"
    and loop: "snd (one_wavelength_rows w self first_utc [] measurements) = Inr df"
    by (auto simp: TillImporterOneWavelength_read_def and_then_Inr)
  then have recs: "records_surviving w fle flt = measurements"
    by (simp add: records_surviving_def)
  from one_wavelength_rows_result [OF loop] show ?thesis
    unfolding recs by (auto elim!: list_all2_mono)
qed

lemma two_wavelength_read_result:
  assumes "snd (TillImporterTwoWavelength_read w self fle flt) = Inr df"
  shows "\<exists>rows first_utc. df = concat (map (\<lambda>(a, b). [a, b]) rows) \<and>
     list_all2 (\<lambda>r p.
        snd (two_wavelength_pair w self first_utc (fst p) (snd p)) = Inr r)
       rows (records_paired w fle flt)"
proof -
  from assms obtain vws_manager wl340 wl380 first_utc where
    "VWSDataManager w fle = Inr vws_manager"
    "get_metadata_two_wavelengths vws_manager (340, 380) flt additional_cols_func
       = Inr (wl340, wl380)"
    and loop: "snd (two_wavelength_rows w self first_utc [] (zip wl340 wl380)) = Inr df"
    by (auto simp: TillImporterTwoWavelength_read_def and_then_Inr)
  then have recs: "records_paired w fle flt = zip wl340 wl380"
    by (simp add: records_paired_def)
  from two_wavelength_rows_result [OF loop] show ?thesis
    unfolding recs by auto
qed

lemma length_concat_pairs: "length (concat (map (\<lambda>(a, b). [a, b]) rows)) = 2 * length rows"
  by (induction rows) auto

lemma lsm_read_result:
  "snd (LSMImporter_read w self fle fle_ind) = Inr df \<Longrightarrow>
   \<exists>lsm_metadata row. df = [row] \<and>
     convert_lsm_metadata_to_lst_row w self (int fle_ind + 1) fle lsm_metadata
       (get_default_row self) = Inr row"
  by (auto simp: LSMImporter_read_def and_then_Inr)

lemma length_concat_all2:
  "list_all2 (\<lambda>df x. length df = n x) dfs xs \<Longrightarrow> length (concat dfs) = sum_list (map n xs)"
  by (induction dfs xs rule: list_all2_induct) simp_all

lemma import_metadata_result:
  "snd (import_metadata w self files flt) = Inr table \<Longrightarrow>
   \<exists>dfs. table = concat dfs \<and>
     list_all2 (\<lambda>df (fle_ind, fle).
        snd (read_single_measurement_metadata w self fle fle_ind flt) = Inr df)
       dfs (enumerate 0 files)"
  using import_loop_result [of w self flt "[]" "enumerate 0 files" table]
  by (simp add: import_metadata_def)

lemma sum_list_enumerate:
  "sum_list (map (\<lambda>(i, x). f x) (enumerate k xs)) = sum_list (map f xs)"
  by (induction xs arbitrary: k) simp_all

lemma read_single_length_one:
  "cls self = TillImporterOneWavelength \<Longrightarrow>
   snd (read_single_measurement_metadata w self fle fle_ind flt) = Inr df \<Longrightarrow>
   length df = length (records_surviving w fle flt)"
  by (auto simp: read_single_measurement_metadata_def
      dest!: one_wavelength_read_result list_all2_lengthD)

lemma read_single_length_two:
  "cls self = TillImporterTwoWavelength \<Longrightarrow>
   snd (read_single_measurement_metadata w self fle fle_ind flt) = Inr df \<Longrightarrow>
   length df = 2 * length (records_paired w fle flt)"
  by (auto simp: read_single_measurement_metadata_def length_concat_pairs
      dest!: two_wavelength_read_result list_all2_lengthD)

lemma read_single_length_lsm:
  "cls self = LSMImporter \<Longrightarrow>
   snd (read_single_measurement_metadata w self fle fle_ind flt) = Inr df \<Longrightarrow>
   length df = 1"
  by (auto simp: read_single_measurement_metadata_def dest!: lsm_read_result)

lemma import_metadata_length:
  assumes "snd (import_metadata w self files flt) = Inr table"
    and each: "\<And>fle fle_ind df.
      snd (read_single_measurement_metadata w self fle fle_ind flt) = Inr df \<Longrightarrow>
      length df = n fle"
  shows "length table = sum_list (map n files)"
proof -
  from import_metadata_result [OF assms(1)] obtain dfs where t: "table = concat dfs"
    and all: "list_all2 (\<lambda>df (fle_ind, fle).
        snd (read_single_measurement_metadata w self fle fle_ind flt) = Inr df)
       dfs (enumerate 0 files)"
    by blast
  have "list_all2 (\<lambda>df x. length df = (\<lambda>(fle_ind, fle). n fle) x) dfs (enumerate 0 files)"
    using all by (rule list_all2_mono) (auto dest: each)
  then have "length (concat dfs) =
      sum_list (map (\<lambda>(fle_ind, fle). n fle) (enumerate 0 files))"
    by (rule length_concat_all2)
  then show ?thesis
    by (simp add: t sum_list_enumerate)
qed

text \<open>
  C6: whenever the import returns a table, its row count is, for the
  SingleWavelength importer, the sum over the files of the number of records
  that survive the filter; for the DualWavelength importer, twice the number
  of paired records; for the ImageSeries importer, the number of files. An
  empty file list gives the empty table, with no error and no log record.
\<close>

theorem import_metadata_row_count:
  "(cls self = TillImporterOneWavelength \<and>
      snd (import_metadata w self files flt) = Inr table \<longrightarrow>
      length table = (\<Sum>fle\<leftarrow>files. length (records_surviving w fle flt))) \<and>
   (cls self = TillImporterTwoWavelength \<and>
      snd (import_metadata w self files flt) = Inr table \<longrightarrow>
      length table = 2 * (\<Sum>fle\<leftarrow>files. length (records_paired w fle flt))) \<and>
   (cls self = LSMImporter \<and>
      snd (import_metadata w self files flt) = Inr table \<longrightarrow>
      length table = length files) \<and>
   import_metadata w self [] flt = ([], Inr [])"
proof (intro conjI impI)
  assume "cls self = TillImporterOneWavelength \<and>
      snd (import_metadata w self files flt) = Inr table"
  then show "length table = (\<Sum>fle\<leftarrow>files. length (records_surviving w fle flt))"
    using import_metadata_length [of w self files flt table
        "\<lambda>fle. length (records_surviving w fle flt)"]
    by (auto dest: read_single_length_one)
next
  assume "cls self = TillImporterTwoWavelength \<and>
      snd (import_metadata w self files flt) = Inr table"
  then have "length table = (\<Sum>fle\<leftarrow>files. 2 * length (records_paired w fle flt))"
    using import_metadata_length [of w self files flt table
        "\<lambda>fle. 2 * length (records_paired w fle flt)"]
    by (auto dest: read_single_length_two)
  then show "length table = 2 * (\<Sum>fle\<leftarrow>files. length (records_paired w fle flt))"
    by (simp add: sum_list_const_mult)
next
  assume a: "cls self = LSMImporter \<and> snd (import_metadata w self files flt) = Inr table"
  have "length df = 1"
    if "snd (read_single_measurement_metadata w self fle fle_ind flt) = Inr df"
    for fle fle_ind df
    using that a by (blast dest: read_single_length_lsm)
  then have "length table = (\<Sum>fle\<leftarrow>files. 1)"
    using a by (intro import_metadata_length [where n = "\<lambda>fle. 1"]) auto
  then show "length table = length files"
    by (simp add: sum_list_triv)
next
  show "import_metadata w self [] flt = ([], Inr [])"
    by (simp add: import_metadata_def ret_def)
qed

subsection \<open>Converted rows\<close>

lemma series_get_setitem:
  "series_get (setitem s k v) k' d = (if k' = k then v else series_get s k' d)"
  by (simp add: series_get_def map_of_setitem)

lemma convert_result:
  assumes "snd (convert_vws_names_to_lst_names fl self m dflt) = Inr row"
  obtains label index measu location expected analyze dbb1 a dt wl utc where
    "getitem m ''Label'' = Inr label"
    "getitem m ''index'' = Inr index"
    "py_add_int index 1 = Inr measu"
    "getitem m ''Location'' = Inr location"
    "snd (fix_location location) = Inr expected"
    "get_path_relative_to_data_dir fl self expected = Inr (analyze, dbb1)"
    "py_int (series_get dflt ''Analyze'' (PInt 1)) = Inr a"
    "getitem m ''dt'' = Inr dt"
    "getitem m ''MonochromatorWL_nm'' = Inr wl"
    "getitem m ''UTCTime'' = Inr utc"
    "row = setitem (setitem (setitem (setitem (setitem (setitem (setitem dflt
              ''Measu'' measu) ''Label'' label) ''DBB1'' dbb1)
              ''Analyze'' (PInt (analyze * a)))
              ''Cycle'' dt) ''Lambda'' wl) ''UTC'' utc"
  using assms
  by (auto simp: convert_vws_names_to_lst_names_def and_then_Inr Let_def series_get_setitem
      split: if_splits)

lemma convert_columns:
  assumes "snd (convert_vws_names_to_lst_names fl self m dflt) = Inr row"
  shows "\<exists>index measu location expected analyze dbb1 a dt.
    getitem m ''index'' = Inr index \<and> py_add_int index 1 = Inr measu \<and>
    map_of row ''Measu'' = Some measu \<and>
    map_of row ''Label'' = map_of m ''Label'' \<and>
    getitem m ''Location'' = Inr location \<and> snd (fix_location location) = Inr expected \<and>
    get_path_relative_to_data_dir fl self expected = Inr (analyze, dbb1) \<and>
    map_of row ''DBB1'' = Some dbb1 \<and>
    py_int (series_get dflt ''Analyze'' (PInt 1)) = Inr a \<and>
    map_of row ''Analyze'' = Some (PInt (analyze * a)) \<and>
    getitem m ''dt'' = Inr dt \<and> map_of row ''Cycle'' = Some dt \<and>
    map_of row ''UTC'' \<noteq> None"
proof -
  from assms obtain label index measu location expected analyze dbb1 a dt wl utc where
    h: "getitem m ''Label'' = Inr label"
    "getitem m ''index'' = Inr index"
    "py_add_int index 1 = Inr measu"
    "getitem m ''Location'' = Inr location"
    "snd (fix_location location) = Inr expected"
    "get_path_relative_to_data_dir fl self expected = Inr (analyze, dbb1)"
    "py_int (series_get dflt ''Analyze'' (PInt 1)) = Inr a"
    "getitem m ''dt'' = Inr dt"
    and row: "row = setitem (setitem (setitem (setitem (setitem (setitem (setitem dflt
              ''Measu'' measu) ''Label'' label) ''DBB1'' dbb1)
              ''Analyze'' (PInt (analyze * a)))
              ''Cycle'' dt) ''Lambda'' wl) ''UTC'' utc"
    by (rule convert_result)
  from h(1) have "map_of m ''Label'' = Some label"
    by (simp add: getitem_def split: option.splits)
  with h show ?thesis
    by (simp add: row map_of_setitem)
qed

lemma set_mtime_result:
  "snd (set_mtime w first_utc lst_line) = Inr row \<Longrightarrow>
   \<exists>mtime. row = setitem lst_line ''MTime'' (PStr mtime)"
  by (auto simp: set_mtime_def and_then_Inr)

lemma set_mtime_columns:
  "snd (set_mtime w first_utc lst_line) = Inr row \<Longrightarrow> k \<noteq> ''MTime'' \<Longrightarrow>
   map_of row k = map_of lst_line k"
  by (auto dest!: set_mtime_result simp: map_of_setitem)

lemma two_wavelength_pair_result:
  assumes "snd (two_wavelength_pair w self first_utc m340 m380) = Inr (r340, r380)"
  shows "\<exists>l340 l380 d t340 t380.
    snd (convert_vws_names_to_lst_names (os_flavour w) self m340 (get_default_row self))
      = Inr l340 \<and>
    snd (convert_vws_names_to_lst_names (os_flavour w) self m380 (get_default_row self))
      = Inr l380 \<and>
    map_of l380 ''DBB1'' = Some d \<and>
    r340 = setitem (setitem l340 ''dbb2'' d) ''MTime'' (PStr t340) \<and>
    r380 = setitem (setitem l380 ''Analyze'' (PInt 0)) ''MTime'' (PStr t380)"
  using assms
  by (auto simp: two_wavelength_pair_def and_then_Inr Let_def getitem_def
      split: option.splits dest!: set_mtime_result)

lemma nth_concat_pairs:
  "k < length rows \<Longrightarrow>
   concat (map (\<lambda>(a, b). [a, b]) rows) ! (2 * k) = fst (rows ! k) \<and>
   concat (map (\<lambda>(a, b). [a, b]) rows) ! (2 * k + 1) = snd (rows ! k)"
proof (induction rows arbitrary: k)
  case Nil
  then show ?case by simp
next
  case (Cons r rows)
  show ?case
  proof (cases k)
    case 0
    then show ?thesis by (cases r) simp
  next
    case (Suc j)
    with Cons.prems have "j < length rows" by simp
    from Cons.IH [OF this] Suc show ?thesis by (cases r) simp
  qed
qed

lemma list_all2_concat:
  "list_all2 (\<lambda>df x. list_all2 R df (g x)) dfs xs \<Longrightarrow>
   list_all2 R (concat dfs) (concat (map g xs))"
  by (induction dfs xs rule: list_all2_induct) (simp_all add: list_all2_appendI)

lemma import_metadata_rows:
  assumes "snd (import_metadata w self files flt) = Inr table"
    and each: "\<And>fle fle_ind df.
      snd (read_single_measurement_metadata w self fle fle_ind flt) = Inr df \<Longrightarrow>
      list_all2 R df (g fle)"
  shows "list_all2 R table (concat (map g files))"
proof -
  from import_metadata_result [OF assms(1)] obtain dfs where t: "table = concat dfs"
    and all: "list_all2 (\<lambda>df (fle_ind, fle).
        snd (read_single_measurement_metadata w self fle fle_ind flt) = Inr df)
       dfs (enumerate 0 files)"
    by blast
  have "list_all2 (\<lambda>df x. list_all2 R df ((\<lambda>(fle_ind, fle). g fle) x)) dfs (enumerate 0 files)"
    using all by (rule list_all2_mono) (auto dest: each)
  then have "list_all2 R (concat dfs) (concat (map (\<lambda>(fle_ind, fle). g fle) (enumerate 0 files)))"
    by (rule list_all2_concat)
  moreover have "map (\<lambda>(fle_ind, fle). g fle) (enumerate k files) = map g files" for k
    by (induction files arbitrary: k) simp_all
  ultimately show ?thesis
    by (simp add: t)
qed

lemma measu_from_index_iff:
  "measu_from_index row m \<longleftrightarrow>
     (\<exists>index measu. getitem m ''index'' = Inr index \<and> py_add_int index 1 = Inr measu \<and>
        map_of row ''Measu'' = Some measu)"
  by (auto simp: measu_from_index_def split: sum.splits)

lemma one_wavelength_measu:
  assumes "cls self = TillImporterOneWavelength"
    and "snd (read_single_measurement_metadata w self fle fle_ind flt) = Inr df"
  shows "list_all2 measu_from_index df (records_surviving w fle flt)"
proof -
  from assms have "snd (TillImporterOneWavelength_read w self fle flt) = Inr df"
    by (simp add: read_single_measurement_metadata_def)
  from one_wavelength_read_result [OF this] show ?thesis
  proof (rule list_all2_mono)
    fix row m
    assume "\<exists>lst_line first_utc.
        snd (convert_vws_names_to_lst_names (os_flavour w) self m (get_default_row self))
          = Inr lst_line \<and>
        snd (set_mtime w first_utc lst_line) = Inr row"
    then obtain lst_line first_utc where
      c: "snd (convert_vws_names_to_lst_names (os_flavour w) self m (get_default_row self))
          = Inr lst_line"
      and t: "snd (set_mtime w first_utc lst_line) = Inr row"
      by blast
    from convert_columns [OF c] set_mtime_columns [OF t, of "''Measu''"]
    show "measu_from_index row m"
      by (auto simp: measu_from_index_iff)
  qed
qed

lemma pair_measu:
  assumes "snd (two_wavelength_pair w self first_utc m340 m380) = Inr (r340, r380)"
  shows "measu_from_index r340 m340 \<and> measu_from_index r380 m380"
proof -
  from two_wavelength_pair_result [OF assms] obtain l340 l380 d t340 t380 where
    c1: "snd (convert_vws_names_to_lst_names (os_flavour w) self m340 (get_default_row self))
      = Inr l340"
    and c2: "snd (convert_vws_names_to_lst_names (os_flavour w) self m380 (get_default_row self))
      = Inr l380"
    and r: "r340 = setitem (setitem l340 ''dbb2'' d) ''MTime'' (PStr t340)"
      "r380 = setitem (setitem l380 ''Analyze'' (PInt 0)) ''MTime'' (PStr t380)"
    by blast
  from convert_columns [OF c1] convert_columns [OF c2] show ?thesis
    by (auto simp: measu_from_index_iff r map_of_setitem)
qed

lemma list_all2_concat_pairs:
  "list_all2 (\<lambda>r p. R (fst r) (fst p) \<and> R (snd r) (snd p)) rows prs \<Longrightarrow>
   list_all2 R (concat (map (\<lambda>(a, b). [a, b]) rows)) (concat (map (\<lambda>(a, b). [a, b]) prs))"
  by (induction rows prs rule: list_all2_induct) (auto split: prod.splits)

lemma two_wavelength_measu:
  assumes "cls self = TillImporterTwoWavelength"
    and "snd (read_single_measurement_metadata w self fle fle_ind flt) = Inr df"
  shows "list_all2 measu_from_index df
           (concat (map (\<lambda>(a, b). [a, b]) (records_paired w fle flt)))"
proof -
  from assms have "snd (TillImporterTwoWavelength_read w self fle flt) = Inr df"
    by (simp add: read_single_measurement_metadata_def)
  from two_wavelength_read_result [OF this] obtain rows first_utc where
    df: "df = concat (map (\<lambda>(a, b). [a, b]) rows)"
    and all: "list_all2 (\<lambda>r p.
        snd (two_wavelength_pair w self first_utc (fst p) (snd p)) = Inr r)
       rows (records_paired w fle flt)"
    by blast
  have "list_all2 (\<lambda>r p. measu_from_index (fst r) (fst p) \<and> measu_from_index (snd r) (snd p))
          rows (records_paired w fle flt)"
    using all by (rule list_all2_mono) (auto dest: pair_measu)
  then show ?thesis
    unfolding df by (rule list_all2_concat_pairs)
qed

lemma convert_lsm_measu:
  "convert_lsm_metadata_to_lst_row w self measu fle lsm_metadata dflt = Inr row \<Longrightarrow>
   map_of row ''Measu'' = Some (PInt measu)"
  by (auto simp: convert_lsm_metadata_to_lst_row_def or_raise_Inr Let_def map_of_setitem)

lemma map_concat_singletons:
  "list_all2 (\<lambda>df x. map f df = [h x]) dfs xs \<Longrightarrow> map f (concat dfs) = map h xs"
  by (induction dfs xs rule: list_all2_induct) simp_all

lemma lsm_measu:
  assumes "cls self = LSMImporter"
    and "snd (import_metadata w self files flt) = Inr table"
  shows "map (\<lambda>row. map_of row ''Measu'') table =
           map (\<lambda>i. Some (PInt (int i + 1))) [0..<length files]"
proof -
  from import_metadata_result [OF assms(2)] obtain dfs where t: "table = concat dfs"
    and all: "list_all2 (\<lambda>df (fle_ind, fle).
        snd (read_single_measurement_metadata w self fle fle_ind flt) = Inr df)
       dfs (enumerate 0 files)"
    by blast
  have "list_all2 (\<lambda>df x. map (\<lambda>row. map_of row ''Measu'') df = [Some (PInt (int (fst x) + 1))])
          dfs (enumerate 0 files)"
    using all
    by (rule list_all2_mono)
      (auto simp: read_single_measurement_metadata_def assms(1)
        dest!: lsm_read_result convert_lsm_measu)
  then have "map (\<lambda>row. map_of row ''Measu'') (concat dfs) =
      map (\<lambda>x. Some (PInt (int (fst x) + 1))) (enumerate 0 files)"
    by (rule map_concat_singletons)
  moreover have gen: "map (\<lambda>x. Some (PInt (int (fst x) + 1))) ys =
      map (\<lambda>i. Some (PInt (int i + 1))) (map fst ys)" for ys :: "(nat \<times> string) list"
    by (simp add: comp_def)
  have "map (\<lambda>x. Some (PInt (int (fst x) + 1))) (enumerate 0 files) =
      map (\<lambda>i. Some (PInt (int i + 1))) [0..<length files]"
    unfolding gen by simp
  ultimately show ?thesis
    by (simp add: t)
qed

text \<open>
  C2, amended: for the ImageSeries importer the row of the file at index i has
  Measu = i + 1, so the values are unique and increase from 1 over the whole
  table. For the SingleWavelength and DualWavelength importers every row
  carries the index of its own raw record plus one, in the order the records
  are consumed: file by file, and within a pair channel 1 then channel 2.
\<close>

theorem measu_values:
  "(cls self = LSMImporter \<and> snd (import_metadata w self files flt) = Inr table \<longrightarrow>
      length table = length files \<and>
      (\<forall>i<length files. map_of (table ! i) ''Measu'' = Some (PInt (int i + 1))) \<and>
      distinct (map (\<lambda>row. map_of row ''Measu'') table)) \<and>
   (cls self = TillImporterOneWavelength \<and>
      snd (import_metadata w self files flt) = Inr table \<longrightarrow>
      list_all2 measu_from_index table
        (concat (map (\<lambda>fle. records_surviving w fle flt) files))) \<and>
   (cls self = TillImporterTwoWavelength \<and>
      snd (import_metadata w self files flt) = Inr table \<longrightarrow>
      list_all2 measu_from_index table
        (concat (map (\<lambda>fle. concat (map (\<lambda>(a, b). [a, b]) (records_paired w fle flt)))
           files)))"
proof (intro conjI impI)
  assume a: "cls self = LSMImporter \<and> snd (import_metadata w self files flt) = Inr table"
  then have m: "map (\<lambda>row. map_of row ''Measu'') table =
           map (\<lambda>i. Some (PInt (int i + 1))) [0..<length files]"
    using lsm_measu by blast
  from arg_cong [OF m, of length] show len: "length table = length files"
    by simp
  show "\<forall>i<length files. map_of (table ! i) ''Measu'' = Some (PInt (int i + 1))"
  proof (intro allI impI)
    fix i assume i: "i < length files"
    with len have "map (\<lambda>row. map_of row ''Measu'') table ! i = map_of (table ! i) ''Measu''"
      by simp
    with m i show "map_of (table ! i) ''Measu'' = Some (PInt (int i + 1))"
      by simp
  qed
  show "distinct (map (\<lambda>row. map_of row ''Measu'') table)"
    unfolding m by (simp add: distinct_map inj_on_def)
next
  assume "cls self = TillImporterOneWavelength \<and>
      snd (import_metadata w self files flt) = Inr table"
  then show "list_all2 measu_from_index table
        (concat (map (\<lambda>fle. records_surviving w fle flt) files))"
    by (intro import_metadata_rows [where g = "\<lambda>fle. records_surviving w fle flt"])
      (auto dest: one_wavelength_measu)
next
  assume "cls self = TillImporterTwoWavelength \<and>
      snd (import_metadata w self files flt) = Inr table"
  then show "list_all2 measu_from_index table
        (concat (map (\<lambda>fle. concat (map (\<lambda>(a, b). [a, b]) (records_paired w fle flt)))
           files))"
    by (intro import_metadata_rows
        [where g = "\<lambda>fle. concat (map (\<lambda>(a, b). [a, b]) (records_paired w fle flt))"])
      (auto dest: two_wavelength_measu)
qed

text \<open>
  C4: reading one file with the DualWavelength importer yields two rows per
  pair of records, the row of channel 1 directly followed by the row of
  channel 2. The second row has Analyze = 0 whatever flag the path resolution
  returned, and the first row carries, as dbb2, the path resolved for the
  second record.
\<close>

theorem two_wavelength_rows_spec:
  assumes two: "cls self = TillImporterTwoWavelength"
    and ok: "snd (read_single_measurement_metadata w self fle fle_ind flt) = Inr frame"
    and k: "k < length (records_paired w fle flt)"
  shows "length frame = 2 * length (records_paired w fle flt) \<and>
    (\<exists>l340 l380 location expected analyze d t340 t380.
       snd (convert_vws_names_to_lst_names (os_flavour w) self
              (fst (records_paired w fle flt ! k)) (get_default_row self)) = Inr l340 \<and>
       snd (convert_vws_names_to_lst_names (os_flavour w) self
              (snd (records_paired w fle flt ! k)) (get_default_row self)) = Inr l380 \<and>
       getitem (snd (records_paired w fle flt ! k)) ''Location'' = Inr location \<and>
       snd (fix_location location) = Inr expected \<and>
       get_path_relative_to_data_dir (os_flavour w) self expected = Inr (analyze, d) \<and>
       frame ! (2 * k) = setitem (setitem l340 ''dbb2'' d) ''MTime'' (PStr t340) \<and>
       frame ! (2 * k + 1) = setitem (setitem l380 ''Analyze'' (PInt 0)) ''MTime'' (PStr t380) \<and>
       map_of (frame ! (2 * k + 1)) ''Analyze'' = Some (PInt 0) \<and>
       map_of (frame ! (2 * k)) ''dbb2'' = Some d \<and>
       map_of (frame ! (2 * k + 1)) ''DBB1'' = Some d \<and>
       map_of (frame ! (2 * k)) ''DBB1'' = map_of l340 ''DBB1'')"
proof -
  from two ok have "snd (TillImporterTwoWavelength_read w self fle flt) = Inr frame"
    by (simp add: read_single_measurement_metadata_def)
  from two_wavelength_read_result [OF this] obtain rows first_utc where
    frame: "frame = concat (map (\<lambda>(a, b). [a, b]) rows)"
    and all: "list_all2 (\<lambda>r p.
        snd (two_wavelength_pair w self first_utc (fst p) (snd p)) = Inr r)
       rows (records_paired w fle flt)"
    by blast
  from all have len: "length rows = length (records_paired w fle flt)"
    by (rule list_all2_lengthD)
  with k have kr: "k < length rows" by simp
  from all k have "snd (two_wavelength_pair w self first_utc
      (fst (records_paired w fle flt ! k)) (snd (records_paired w fle flt ! k))) = Inr (rows ! k)"
    by (simp add: list_all2_conv_all_nth)
  then have pair: "snd (two_wavelength_pair w self first_utc
      (fst (records_paired w fle flt ! k)) (snd (records_paired w fle flt ! k)))
        = Inr (frame ! (2 * k), frame ! (2 * k + 1))"
    using nth_concat_pairs [OF kr] by (simp add: frame)
  from two_wavelength_pair_result [OF pair] obtain l340 l380 d t340 t380 where
    c1: "snd (convert_vws_names_to_lst_names (os_flavour w) self
              (fst (records_paired w fle flt ! k)) (get_default_row self)) = Inr l340"
    and c2: "snd (convert_vws_names_to_lst_names (os_flavour w) self
              (snd (records_paired w fle flt ! k)) (get_default_row self)) = Inr l380"
    and d: "map_of l380 ''DBB1'' = Some d"
    and r1: "frame ! (2 * k) = setitem (setitem l340 ''dbb2'' d) ''MTime'' (PStr t340)"
    and r2: "frame ! (2 * k + 1) = setitem (setitem l380 ''Analyze'' (PInt 0)) ''MTime'' (PStr t380)"
    by blast
  from convert_columns [OF c2] d obtain location expected analyze where
    "getitem (snd (records_paired w fle flt ! k)) ''Location'' = Inr location"
    "snd (fix_location location) = Inr expected"
    "get_path_relative_to_data_dir (os_flavour w) self expected = Inr (analyze, d)"
    by auto
  moreover have "length frame = 2 * length (records_paired w fle flt)"
    by (simp add: frame length_concat_pairs len)
  ultimately show ?thesis
    using c1 c2 d r1 r2 by (auto simp: map_of_setitem)
qed

subsection \<open>The example import, evaluated\<close>

lemmas model_eval =
  import_metadata_def read_single_measurement_metadata_def TillImporterOneWavelength_read_def
  TillImporterTwoWavelength_read_def LSMImporter_read_def two_wavelength_pair_def
  convert_vws_names_to_lst_names_def convert_lsm_metadata_to_lst_row_def
  first_track_wavelength_def getitem2_def or_raise_def and_then_def lift_def ret_def info_def
  warning_def fix_location_def get_path_relative_to_data_dir_def set_mtime_def get_mtime_def
  get_item_at_def index_from_end_def getitem_def setitem_def series_get_def get_default_row_def
  TillImporterOneWavelength_init_def TillImporterTwoWavelength_init_def
  LSMImporter_init_def TillImporter_init_def BaseImporter_init_def
  vws_manager_of_def vws_rows_def with_wavelength_def inject_cols_def additional_cols_func_def
  timing_dt_def calculate_dt_from_timing_ms_def float_eval
  parse_parts_def splitroot_windows_def splitroot_posix_def split_extended_path_def
  find_from_def is_drive_letter_def startswith_def endswith_def truediv_def
  join_parsed_parts_def path_str_def path_name_def path_stem_def rfind_def path_parent_def
  bslash_def slash_def enumerate_eq_zip

lemmas example_eval =
  example_world_def example_one_def example_two_def example_lsm_def example_defaults_def
  bee1_records_def bee2_records_def raw_record_def win_path_def accept_all_def
  example_lsm_metadata_def example_table_one_def example_table_two_def example_table_lsm_def

lemma example_import_one:
  "snd (import_metadata (example_world None) example_one
         [''/data/bee1.vws.log'', ''/data/bee2.vws.log''] accept_all) = Inr example_table_one"
  by (simp add: model_eval example_eval)

lemma example_import_two:
  "snd (import_metadata (example_world None) example_two [''/data/bee1.vws.log''] accept_all)
     = Inr example_table_two"
  by (simp add: model_eval example_eval)

lemma example_read_two:
  "snd (read_single_measurement_metadata (example_world None) example_two
         ''/data/bee1.vws.log'' 0 accept_all) = Inr example_table_two"
  by (simp add: model_eval example_eval)

lemma example_import_lsm:
  "snd (import_metadata (example_world None) example_lsm
         [''/data/bee1/day1/a.lsm'', ''/data/bee1/day1/b.lsm''] accept_all)
     = Inr example_table_lsm"
  by (simp add: model_eval example_eval)

lemma example_records_surviving:
  "records_surviving (example_world None) ''/data/bee1.vws.log'' accept_all =
     map (inject_cols additional_cols_func) bee1_records"
  "records_surviving (example_world None) ''/data/bee2.vws.log'' accept_all =
     map (inject_cols additional_cols_func) bee2_records"
  by (simp_all add: records_surviving_def example_world_def vws_manager_of_def vws_rows_def
      accept_all_def)

lemma example_records_paired:
  "records_paired (example_world None) ''/data/bee1.vws.log'' accept_all =
     [(inject_cols additional_cols_func (bee1_records ! 0),
       inject_cols additional_cols_func (bee1_records ! 1))]"
  by (simp add: records_paired_def example_world_def vws_manager_of_def vws_rows_def
      accept_all_def with_wavelength_def bee1_records_def raw_record_def)

lemma example_classes:
  "cls example_one = TillImporterOneWavelength"
  "cls example_two = TillImporterTwoWavelength"
  "cls example_lsm = LSMImporter"
  by (simp_all add: example_one_def example_two_def example_lsm_def
      TillImporterOneWavelength_init_def TillImporterTwoWavelength_init_def
      LSMImporter_init_def TillImporter_init_def BaseImporter_init_def)

theorem import_metadata_row_count_witness:
  "snd (import_metadata (example_world None) example_one
         [''/data/bee1.vws.log'', ''/data/bee2.vws.log''] accept_all) = Inr example_table_one \<and>
   length example_table_one = length bee1_records + length bee2_records \<and>
   snd (import_metadata (example_world None) example_two [''/data/bee1.vws.log''] accept_all)
     = Inr example_table_two \<and>
   length example_table_two = 2 * 1 \<and>
   snd (import_metadata (example_world None) example_lsm
         [''/data/bee1/day1/a.lsm'', ''/data/bee1/day1/b.lsm''] accept_all)
     = Inr example_table_lsm \<and>
   length example_table_lsm = 2"
  using import_metadata_row_count [of example_one "example_world None"
      "[''/data/bee1.vws.log'', ''/data/bee2.vws.log'']" accept_all example_table_one]
    import_metadata_row_count [of example_two "example_world None"
      "[''/data/bee1.vws.log'']" accept_all example_table_two]
    import_metadata_row_count [of example_lsm "example_world None"
      "[''/data/bee1/day1/a.lsm'', ''/data/bee1/day1/b.lsm'']" accept_all example_table_lsm]
  by (simp add: example_import_one example_import_two example_import_lsm example_classes
      example_records_surviving example_records_paired)

text \<open>
  C1: a record whose timing list holds a single timestamp is marked by
  \<^verbatim>\<open>additional_cols_func\<close> with dt = -1 and Analyze = 0, and the import goes
  on with the next record; but the output row takes its Analyze from the path
  flag and the default row only, so it is 1.
\<close>

theorem timing_failure_row:
  "timing_dt (bee1_records ! 0) = Inl ZeroDivisionError \<and>
   additional_cols_func (bee1_records ! 0) = [(''dt'', PInt (- 1)), (''Analyze'', PInt 0)] \<and>
   snd (import_metadata (example_world None) example_one
          [''/data/bee1.vws.log'', ''/data/bee2.vws.log''] accept_all) = Inr example_table_one \<and>
   map_of (example_table_one ! 0) ''Label'' = Some (PStr ''m1'') \<and>
   map_of (example_table_one ! 0) ''Cycle'' = Some (PInt (- 1)) \<and>
   map_of (example_table_one ! 0) ''Analyze'' = Some (PInt 1)"
proof -
  have "timing_dt (bee1_records ! 0) = Inl ZeroDivisionError"
    by (simp add: timing_dt_def getitem_def bee1_records_def raw_record_def
        calculate_dt_from_timing_ms_def float_eval)
  then show ?thesis
    by (simp add: additional_cols_func_def example_import_one example_table_one_def)
qed

text \<open>
  C2, as stated, fails: each vendor log numbers its records from 0, so an
  import of two logs repeats the Measu value 1.
\<close>

theorem measu_repeats_counterexample:
  "snd (import_metadata (example_world None) example_one
          [''/data/bee1.vws.log'', ''/data/bee2.vws.log''] accept_all) = Inr example_table_one \<and>
   map_of (example_table_one ! 0) ''Measu'' = Some (PInt 1) \<and>
   map_of (example_table_one ! 1) ''Measu'' = Some (PInt 2) \<and>
   map_of (example_table_one ! 2) ''Measu'' = Some (PInt 1)"
  by (simp add: example_import_one example_table_one_def)

theorem measu_values_witness:
  "length example_table_lsm = 2 \<and>
   map_of (example_table_lsm ! 0) ''Measu'' = Some (PInt 1) \<and>
   map_of (example_table_lsm ! 1) ''Measu'' = Some (PInt 2) \<and>
   list_all2 measu_from_index example_table_one
     (map (inject_cols additional_cols_func) (bee1_records @ bee2_records)) \<and>
   list_all2 measu_from_index example_table_two
     (map (inject_cols additional_cols_func) bee1_records)"
proof -
  have lsm: "length example_table_lsm = 2 \<and>
      (\<forall>i<2. map_of (example_table_lsm ! i) ''Measu'' = Some (PInt (int i + 1)))"
    using measu_values [of example_lsm "example_world None"
        "[''/data/bee1/day1/a.lsm'', ''/data/bee1/day1/b.lsm'']" accept_all example_table_lsm]
    by (simp add: example_import_lsm example_classes)
  then have "map_of (example_table_lsm ! 0) ''Measu'' = Some (PInt (int 0 + 1))"
    and "map_of (example_table_lsm ! 1) ''Measu'' = Some (PInt (int 1 + 1))"
    by (metis zero_less_numeral, metis one_less_numeral_iff semiring_norm(76))
  moreover have "list_all2 measu_from_index example_table_one
     (map (inject_cols additional_cols_func) (bee1_records @ bee2_records))"
    using measu_values [of example_one "example_world None"
        "[''/data/bee1.vws.log'', ''/data/bee2.vws.log'']" accept_all example_table_one]
    by (simp add: example_import_one example_classes example_records_surviving)
  moreover have "list_all2 measu_from_index example_table_two
     (map (inject_cols additional_cols_func) bee1_records)"
    using measu_values [of example_two "example_world None"
        "[''/data/bee1.vws.log'']" accept_all example_table_two]
    by (simp add: example_import_two example_classes example_records_paired bee1_records_def)
  ultimately show ?thesis
    using lsm by simp
qed

theorem two_wavelength_rows_spec_witness:
  "cls example_two = TillImporterTwoWavelength \<and>
   snd (read_single_measurement_metadata (example_world None) example_two
          ''/data/bee1.vws.log'' 0 accept_all) = Inr example_table_two \<and>
   0 < length (records_paired (example_world None) ''/data/bee1.vws.log'' accept_all) \<and>
   length example_table_two = 2 \<and>
   map_of (example_table_two ! 1) ''Analyze'' = Some (PInt 0) \<and>
   map_of (example_table_two ! 0) ''dbb2'' = map_of (example_table_two ! 1) ''DBB1'' \<and>
   get_path_relative_to_data_dir Posix example_two
     (PStr (win_path [''C:'', ''data'', ''bee1'', ''m2.pst''])) = Inr (1, PStr ''bee1/m2'')"
proof -
  have k: "0 < length (records_paired (example_world None) ''/data/bee1.vws.log'' accept_all)"
    by (simp add: example_records_paired)
  from two_wavelength_rows_spec [OF example_classes(2) example_read_two k]
  have "length example_table_two = 2 \<and>
      map_of (example_table_two ! 1) ''Analyze'' = Some (PInt 0) \<and>
      map_of (example_table_two ! 0) ''dbb2'' = map_of (example_table_two ! 1) ''DBB1''"
    by (auto simp: example_records_paired)
  moreover have "get_path_relative_to_data_dir Posix example_two
     (PStr (win_path [''C:'', ''data'', ''bee1'', ''m2.pst''])) = Inr (1, PStr ''bee1/m2'')"
    by (simp add: model_eval example_eval)
  ultimately show ?thesis
    using k by (simp add: example_classes example_read_two)
qed

subsection \<open>Subject grouping\<close>

lemma hd_split_char: "hd (split_char sep s) = takeWhile (\<lambda>c. c \<noteq> sep) s"
  by (induction s) (simp_all add: Let_def)

lemma till_mapping_loop_lookup:
  "map_of (till_mapping_loop fl d fs) k =
     (case filter (\<lambda>f. animal_tag fl f = k) fs of
        [] \<Rightarrow> map_of d k
      | x # xs \<Rightarrow> Some (FileList [last (x # xs)]))"
proof (induction fs arbitrary: d)
  case Nil
  then show ?case by simp
next
  case (Cons f fs)
  show ?case
    by (simp add: Cons.IH update_conv' split: list.splits)
qed

lemma till_mapping_loop_distinct:
  "distinct (map fst d) \<Longrightarrow> distinct (map fst (till_mapping_loop fl d fs))"
  by (induction fs arbitrary: d) (simp_all add: distinct_update)

lemma till_mapping_lookup:
  "map_of (TillImporter_get_animal_tag_raw_data_mapping fl files_chosen) k =
     (case filter (\<lambda>f. animal_tag fl f = k) (py_seq files_chosen) of
        [] \<Rightarrow> None
      | x # xs \<Rightarrow> Some (FileList [last (x # xs)]))"
  by (simp add: TillImporter_get_animal_tag_raw_data_mapping_def till_mapping_loop_lookup
      split: list.splits)

lemma till_mapping_distinct:
  "distinct (map fst (TillImporter_get_animal_tag_raw_data_mapping fl files_chosen))"
  by (simp add: TillImporter_get_animal_tag_raw_data_mapping_def till_mapping_loop_distinct)

text \<open>
  C10: in the mapping the Till importers return, every value is a list of
  exactly one chosen file and its key is the name of that file up to the first
  period; the keys are distinct; each chosen file's tag maps to the last
  chosen file with that tag. So of two files with the same tag only the later
  one is in the mapping.
\<close>

theorem till_mapping_single_file:
  "(\<forall>(k, v) \<in> set (TillImporter_get_animal_tag_raw_data_mapping fl files_chosen).
      \<exists>f \<in> set (py_seq files_chosen). v = FileList [f] \<and>
        k = takeWhile (\<lambda>c. c \<noteq> CHR ''.'') (path_name (parse_parts fl f))) \<and>
   distinct (map fst (TillImporter_get_animal_tag_raw_data_mapping fl files_chosen)) \<and>
   (\<forall>f \<in> set (py_seq files_chosen).
      map_of (TillImporter_get_animal_tag_raw_data_mapping fl files_chosen) (animal_tag fl f) =
        Some (FileList [last (filter (\<lambda>g. animal_tag fl g = animal_tag fl f)
                                (py_seq files_chosen))])) \<and>
   (animal_tag fl f1 = animal_tag fl f2 \<longrightarrow>
      TillImporter_get_animal_tag_raw_data_mapping fl (FileList [f1, f2]) =
        [(animal_tag fl f2, FileList [f2])])"
proof (intro conjI)
  let ?m = "TillImporter_get_animal_tag_raw_data_mapping fl files_chosen"
  show "\<forall>(k, v) \<in> set ?m. \<exists>f \<in> set (py_seq files_chosen). v = FileList [f] \<and>
        k = takeWhile (\<lambda>c. c \<noteq> CHR ''.'') (path_name (parse_parts fl f))"
  proof (clarify)
    fix k v assume "(k, v) \<in> set ?m"
    then have look: "map_of ?m k = Some v"
      using till_mapping_distinct by simp
    let ?same = "filter (\<lambda>f. animal_tag fl f = k) (py_seq files_chosen)"
    from look have ne: "?same \<noteq> []" and v: "v = FileList [last ?same]"
      by (auto simp: till_mapping_lookup split: list.splits)
    from ne have "last ?same \<in> set ?same"
      by (rule last_in_set)
    then have "last ?same \<in> set (py_seq files_chosen)" and "animal_tag fl (last ?same) = k"
      by simp_all
    with v show "\<exists>f \<in> set (py_seq files_chosen). v = FileList [f] \<and>
        k = takeWhile (\<lambda>c. c \<noteq> CHR ''.'') (path_name (parse_parts fl f))"
      by (auto simp: animal_tag_def hd_split_char)
  qed
  show "distinct (map fst ?m)"
    by (rule till_mapping_distinct)
  show "\<forall>f \<in> set (py_seq files_chosen).
      map_of ?m (animal_tag fl f) =
        Some (FileList [last (filter (\<lambda>g. animal_tag fl g = animal_tag fl f)
                                (py_seq files_chosen))])"
  proof
    fix f assume "f \<in> set (py_seq files_chosen)"
    then have "filter (\<lambda>g. animal_tag fl g = animal_tag fl f) (py_seq files_chosen) \<noteq> []"
      by (auto simp: filter_empty_conv)
    then show "map_of ?m (animal_tag fl f) =
        Some (FileList [last (filter (\<lambda>g. animal_tag fl g = animal_tag fl f)
                                (py_seq files_chosen))])"
      by (simp add: till_mapping_lookup split: list.splits)
  qed
  show "animal_tag fl f1 = animal_tag fl f2 \<longrightarrow>
      TillImporter_get_animal_tag_raw_data_mapping fl (FileList [f1, f2]) =
        [(animal_tag fl f2, FileList [f2])]"
    by (simp add: TillImporter_get_animal_tag_raw_data_mapping_def)
qed

lemmas path_eval =
  parse_parts_def splitroot_windows_def splitroot_posix_def split_extended_path_def
  find_from_def is_drive_letter_def startswith_def endswith_def truediv_def
  join_parsed_parts_def path_str_def path_name_def path_stem_def rfind_def path_parent_def
  bslash_def slash_def

theorem till_mapping_single_file_witness:
  "animal_tag Posix ''/data/bee1.vws.log'' = ''bee1'' \<and>
   animal_tag Posix ''/data/bee1.second.log'' = ''bee1'' \<and>
   TillImporter_get_animal_tag_raw_data_mapping Posix
     (FileList [''/data/bee1.vws.log'', ''/data/bee1.second.log'']) =
     [(''bee1'', FileList [''/data/bee1.second.log''])] \<and>
   map_of (TillImporter_get_animal_tag_raw_data_mapping Posix
     (FileList [''/data/bee1.vws.log'', ''/data/bee2.vws.log''])) ''bee1'' =
     Some (FileList [''/data/bee1.vws.log''])"
proof -
  have tags: "animal_tag Posix ''/data/bee1.vws.log'' = ''bee1''"
    "animal_tag Posix ''/data/bee1.second.log'' = ''bee1''"
    "animal_tag Posix ''/data/bee2.vws.log'' = ''bee2''"
    by (simp_all add: animal_tag_def path_eval)
  have "TillImporter_get_animal_tag_raw_data_mapping Posix
     (FileList [''/data/bee1.vws.log'', ''/data/bee1.second.log'']) =
     [(''bee1'', FileList [''/data/bee1.second.log''])]"
    using till_mapping_single_file [of Posix "FileList []"
        "''/data/bee1.vws.log''" "''/data/bee1.second.log''"]
    by (simp add: tags)
  moreover have "map_of (TillImporter_get_animal_tag_raw_data_mapping Posix
     (FileList [''/data/bee1.vws.log'', ''/data/bee2.vws.log''])) ''bee1'' =
     Some (FileList [''/data/bee1.vws.log''])"
    using till_mapping_single_file [of Posix
        "FileList [''/data/bee1.vws.log'', ''/data/bee2.vws.log'']"]
    by (simp add: tags)
  ultimately show ?thesis
    by (simp add: tags)
qed

subsection \<open>Asking for the files\<close>

lemma choose_files_constructed:
  "\<exists>d. choose_files w (new_importer c dv) default_dir mult = Inr (fileopenbox w d) \<and>
        multiple d = mult \<and>
        default_path d = path_str (truediv (parse_parts (os_flavour w) default_dir) ''*'')"
  by (cases c)
    (auto simp: choose_files_def get_filetype_info_string_def or_raise_def Let_def
      TillImporterOneWavelength_init_def TillImporterTwoWavelength_init_def
      LSMImporter_init_def TillImporter_init_def BaseImporter_init_def)

text \<open>
  C7, as stated, fails: only the first chosen file is compared with the root
  directory, so a later file outside the root is accepted.
\<close>

theorem ask_for_files_second_file_counterexample:
  "\<not> startswith ''/elsewhere/bee2.vws.log'' ''/data'' \<and>
   snd (ask_for_files
          (example_world (Some (FileList [''/data/bee1.vws.log'', ''/elsewhere/bee2.vws.log''])))
          example_one ''/data'' True) =
     Inr [(''bee1'', FileList [''/data/bee1.vws.log'']),
          (''bee2'', FileList [''/elsewhere/bee2.vws.log''])]"
  by (simp add: ask_for_files_def choose_files_def get_filetype_info_string_def
      get_animal_tag_raw_data_mapping_def TillImporter_get_animal_tag_raw_data_mapping_def
      animal_tag_def opt_pyval_def model_eval example_eval)

text \<open>
  C7, amended: when the dialog is cancelled, the user-abort error is raised;
  when the first chosen file does not start with the root directory, the
  validation error is raised and its message carries the root directory; when
  it does, the result is the grouping of the chosen files, whatever the
  directories of the other files are.
\<close>

theorem ask_for_files_validation:
  "(choose_files w self default_dir mult = Inr None \<longrightarrow>
      ask_for_files w self default_dir mult =
        ([], Inl (IOError ''User Abort while choosing files.''))) \<and>
   (choose_files w self default_dir mult = Inr (Some files_chosen) \<and>
    get_item_at (py_seq files_chosen) 0 = Inr first_file \<and>
    \<not> startswith first_file default_dir \<longrightarrow>
      ask_for_files w self default_dir mult =
        ([], Inl (AssertionError
           (''The data selected in not in the expected data directory of the current tree:''
              @ [CHR 0x0A] @ ''{}. Please copy your data there and try again!'')
           [PStr default_dir]))) \<and>
   (choose_files w self default_dir mult = Inr (Some files_chosen) \<and>
    get_item_at (py_seq files_chosen) 0 = Inr first_file \<and>
    startswith first_file default_dir \<longrightarrow>
      snd (ask_for_files w self default_dir mult) =
        get_animal_tag_raw_data_mapping (os_flavour w) self files_chosen)"
  by (auto simp: ask_for_files_def and_then_def lift_def ret_def info_def
      split: sum.splits prod.splits)

theorem ask_for_files_validation_witness:
  "ask_for_files (example_world None) example_one ''/data'' True =
     ([], Inl (IOError ''User Abort while choosing files.'')) \<and>
   ask_for_files (example_world (Some (FileList [''/elsewhere/bee2.vws.log''])))
      example_one ''/data'' True =
     ([], Inl (AssertionError
        (''The data selected in not in the expected data directory of the current tree:''
           @ [CHR 0x0A] @ ''{}. Please copy your data there and try again!'')
        [PStr ''/data''])) \<and>
   snd (ask_for_files (example_world (Some (FileList [''/data/bee1.vws.log''])))
      example_one ''/data'' True) = Inr [(''bee1'', FileList [''/data/bee1.vws.log''])]"
proof -
  have chosen: "choose_files (example_world answer) example_one ''/data'' True = Inr answer"
    for answer
    using choose_files_constructed
      [of "example_world answer" TillImporterOneWavelength example_defaults "''/data''" True]
    by (auto simp: example_one_def example_world_def)
  have outside: "\<not> startswith ''/elsewhere/bee2.vws.log'' ''/data''"
    and inside: "startswith ''/data/bee1.vws.log'' ''/data''"
    by (simp_all add: startswith_def)
  have grouping: "get_animal_tag_raw_data_mapping
      (os_flavour (example_world (Some (FileList [''/data/bee1.vws.log'']))))
      example_one (FileList [''/data/bee1.vws.log'']) =
      Inr [(''bee1'', FileList [''/data/bee1.vws.log''])]"
    by (simp add: get_animal_tag_raw_data_mapping_def
        TillImporter_get_animal_tag_raw_data_mapping_def animal_tag_def model_eval example_eval)
  show ?thesis
    using ask_for_files_validation [of "example_world None" example_one "''/data''" True]
      ask_for_files_validation [of
        "example_world (Some (FileList [''/elsewhere/bee2.vws.log'']))" example_one "''/data''"
        True "FileList [''/elsewhere/bee2.vws.log'']" "''/elsewhere/bee2.vws.log''"]
      ask_for_files_validation [of
        "example_world (Some (FileList [''/data/bee1.vws.log'']))" example_one "''/data''"
        True "FileList [''/data/bee1.vws.log'']" "''/data/bee1.vws.log''"]
    by (simp add: chosen get_item_at_def outside inside grouping)
qed

subsection \<open>Path resolution\<close>

lemma endswith_tl: "endswith s (a # p) \<Longrightarrow> endswith s p"
proof -
  assume h: "endswith s (a # p)"
  then have len: "Suc (length p) \<le> length s"
    and d: "drop (length s - Suc (length p)) s = a # p"
    by (simp_all add: endswith_def)
  from len have "length s - length p = Suc (length s - Suc (length p))"
    by arith
  then have "drop (length s - length p) s = tl (drop (length s - Suc (length p)) s)"
    by (simp add: drop_Suc tl_drop)
  with d len show ?thesis
    by (simp add: endswith_def)
qed

lemma endswith_append_char: "endswith s p \<Longrightarrow> endswith (s @ [c]) (p @ [c])"
  by (auto simp: endswith_def)

lemma tail_is_ps_dot: "endswith loc ''.ps'' \<Longrightarrow> drop (length loc - 2) loc = ''ps''"
  using endswith_tl [of loc "CHR ''.''" "''ps''"] by (simp add: endswith_def numeral_2_eq_2)

lemma fix_location_ps:
  "endswith loc ''.ps'' \<Longrightarrow>
   fix_location (PStr loc) =
     ([Log WARNING ''adding a t to the .ps file name to make it .pst'' []],
      Inr (PStr (loc @ ''t'')))"
  by (simp add: fix_location_def tail_is_ps_dot and_then_def lift_def warning_def)

lemma fst_lift [simp]: "fst (lift r) = []"
  by (simp add: lift_def)

lemma fst_ret [simp]: "fst (ret x) = []"
  by (simp add: ret_def)

lemma convert_ps_warning:
  assumes ok: "snd (convert_vws_names_to_lst_names fl self m dflt) = Inr row"
    and loc: "getitem m ''Location'' = Inr (PStr loc)"
    and ps: "endswith loc ''.ps''"
  shows "Log WARNING ''adding a t to the .ps file name to make it .pst'' []
           \<in> set (fst (convert_vws_names_to_lst_names fl self m dflt))"
proof -
  from ok obtain label index measu where
    h: "getitem m ''Label'' = Inr label" "getitem m ''index'' = Inr index"
       "py_add_int index 1 = Inr measu"
    by (rule convert_result)
  show ?thesis
    by (simp add: convert_vws_names_to_lst_names_def and_then_log h loc fix_location_ps [OF ps]
        Let_def info_def split: sum.splits)
qed

lemma till_resolution:
  assumes "cls self \<noteq> LSMImporter" and "movie_data_extensions self = Some [''.pst'', ''.ps'']"
  shows "get_path_relative_to_data_dir fl self (PStr loc) =
    (if endswith loc ''.pst'' \<or> endswith loc ''.ps'' then
       (case index_from_end (parts (parse_parts Windows loc)) 2 of
          Inl e \<Rightarrow> Inl e
        | Inr directory \<Rightarrow>
            Inr (1, PStr (path_str (truediv (parse_parts fl directory)
                                            (path_stem (parse_parts Windows loc))))))
     else Inr (0, PStr ''wrong extension''))"
  using assms
  by (cases "cls self") (simp_all add: get_path_relative_to_data_dir_def Let_def)

text \<open>
  C5, as stated, fails: a location that ends in a movie extension but has no
  directory part has no second last part, and the resolution raises.
\<close>

theorem bare_file_name_counterexample:
  "endswith ''m1.pst'' ''.pst'' \<and>
   get_path_relative_to_data_dir Posix example_one (PStr ''m1.pst'') = Inl IndexError"
  by (simp add: model_eval example_eval)

lemma set_join_str: "set (join_str sep names) \<subseteq> set sep \<union> \<Union> (set ` set names)"
  by (induction sep names rule: join_str.induct) auto

lemma map_replace_absent: "a \<notin> set xs \<Longrightarrow> map (\<lambda>c. if c = a then b else c) xs = xs"
  by (induction xs) auto

lemma dropWhile_id: "xs \<noteq> [] \<Longrightarrow> \<not> P (hd xs) \<Longrightarrow> dropWhile P xs = xs"
  by (cases xs) simp_all

lemma parse_parts_plain:
  assumes "plain_name d"
  shows "parse_parts fl d = \<lparr>flav = fl, drv = [], root = [], parts = [d]\<rparr>"
proof -
  from assms obtain a rest where d: "d = a # rest"
    by (cases d) (auto simp: plain_name_def)
  from assms have nosep: "sep_of fl \<notin> set d"
    by (cases fl) (auto simp: plain_name_def)
  from assms d have chars: "a \<noteq> bslash" "a \<noteq> slash" "slash \<notin> set rest" "bslash \<notin> set rest"
    "CHR '':'' \<notin> set rest"
    by (auto simp: plain_name_def)
  have same: "map (\<lambda>c. if c = slash then bslash else c) d = d"
    using assms by (simp add: plain_name_def map_replace_absent)
  have root_w: "splitroot_windows d = ([], [], d)"
    using chars by (cases rest) (auto simp: splitroot_windows_def d Let_def)
  have root_p: "splitroot_posix d = ([], [], d)"
    using chars by (simp add: splitroot_posix_def d)
  have "filter (\<lambda>x. x \<noteq> [] \<and> x \<noteq> ''.'') (split_char (sep_of fl) d) = [d]"
    using assms by (simp add: split_char_no_sep [OF nosep] plain_name_def)
  moreover from d have "d \<noteq> []"
    by simp
  ultimately show ?thesis
    unfolding parse_parts_def
    by (cases fl) (simp_all only: same root_w root_p flavour.case splitroot.simps Let_def
        if_False prod.case sep_of.simps simp_thms list.simps)
qed

lemma truediv_plain:
  assumes "plain_name d" and "plain_name s"
  shows "path_str (truediv (parse_parts fl d) s) = d @ [sep_of fl] @ s"
  using assms
  by (simp add: truediv_def parse_parts_plain join_parsed_parts_def path_str_def plain_name_def)

lemma parse_parts_windows_absolute:
  assumes letter: "is_drive_letter [l]"
    and ne: "names \<noteq> []" and plain: "\<forall>n\<in>set names. plain_name n"
  shows "parse_parts Windows ([l, CHR '':'', bslash] @ join_str [bslash] names) =
    \<lparr>flav = Windows, drv = [l, CHR '':''], root = [bslash],
     parts = [l, CHR '':'', bslash] # names\<rparr>"
proof -
  define rel where "rel = join_str [bslash] names"
  define loc where "loc = [l, CHR '':'', bslash] @ rel"
  from letter have l: "l \<noteq> slash"
    by (auto simp: is_drive_letter_def slash_def)
  have "slash \<notin> set rel"
    using set_join_str [of "[bslash]" names] plain
    by (auto simp: plain_name_def slash_def bslash_def rel_def)
  with l have "slash \<notin> set loc"
    by (simp add: slash_def bslash_def loc_def)
  then have same: "map (\<lambda>c. if c = slash then bslash else c) loc = loc"
    by (rule map_replace_absent)
  from ne plain have "hd names \<noteq> []" "bslash \<notin> set (hd names)"
    by (auto simp: plain_name_def)
  then have "rel \<noteq> []" "hd rel \<noteq> bslash"
    using join_str_hd [OF ne, of "[bslash]"] by (auto dest: hd_in_set simp: rel_def)
  then have strip: "dropWhile (\<lambda>c. c = bslash) rel = rel"
    by (simp add: dropWhile_id)
  have root: "splitroot_windows loc = ([l, CHR '':''], [bslash], rel)"
    using letter by (simp add: splitroot_windows_def Let_def strip loc_def) (simp add: bslash_def)
  from plain have nosep: "\<forall>n\<in>set names. bslash \<notin> set n"
    by (simp add: plain_name_def)
  have names: "filter (\<lambda>x. x \<noteq> [] \<and> x \<noteq> ''.'') (split_char bslash rel) = names"
    using plain by (simp add: split_char_join [OF ne nosep] plain_name_def filter_id_conv rel_def)
  have nonempty: "loc \<noteq> []"
    by (simp add: loc_def)
  have "parse_parts Windows loc =
    \<lparr>flav = Windows, drv = [l, CHR '':''], root = [bslash],
     parts = [l, CHR '':'', bslash] # names\<rparr>"
    unfolding parse_parts_def
    by (simp only: same root names nonempty flavour.case splitroot.simps Let_def
        if_False if_True prod.case sep_of.simps simp_thms list.distinct append_Nil append_Cons)
  then show ?thesis
    by (simp add: loc_def rel_def)
qed

lemma path_stem_pst:
  assumes "parts p = anchor # dirs @ [d, stem @ ''.pst'']" and "stem \<noteq> []"
    and "drv p \<noteq> [] \<or> root p \<noteq> []"
  shows "path_stem p = stem"
proof -
  have name: "path_name p = stem @ ''.pst''"
    using assms by (simp add: path_name_def)
  have "takeWhile (\<lambda>x. x \<noteq> CHR ''.'') (rev (stem @ ''.pst'')) = ''tsp''"
    by simp
  then have "rfind CHR ''.'' (stem @ ''.pst'') = Some (length stem)"
    by (simp add: rfind_def)
  with assms(2) show ?thesis
    by (simp add: path_stem_def name)
qed

lemma join_str_ends:
  "\<exists>pre. join_str sep (dirs @ [d, name]) = pre @ name"
proof (induction dirs)
  case Nil
  show ?case by (intro exI [of _ "d @ sep"]) simp
next
  case (Cons a dirs)
  then obtain pre where "join_str sep (dirs @ [d, name]) = pre @ name"
    by blast
  then show ?case
    by (cases "dirs @ [d, name]") (auto intro: exI [of _ "a @ sep @ pre"])
qed

lemma endswith_append: "endswith (pre @ p) p"
  by (simp add: endswith_def)

lemma windows_location_resolution:
  assumes till: "cls self \<noteq> LSMImporter"
    and exts: "movie_data_extensions self = Some [''.pst'', ''.ps'']"
    and letter: "is_drive_letter [l]"
    and dirs: "\<forall>n\<in>set dirs. plain_name n" and d: "plain_name d" and stem: "plain_name stem"
  shows "get_path_relative_to_data_dir fl self
           (PStr ([l, CHR '':'', bslash] @ join_str [bslash] (dirs @ [d, stem @ ''.pst''])))
         = Inr (1, PStr (d @ [sep_of fl] @ stem))"
proof -
  define names where "names = dirs @ [d, stem @ ''.pst'']"
  define loc where "loc = [l, CHR '':'', bslash] @ join_str [bslash] names"
  from stem have name: "plain_name (stem @ ''.pst'')"
    by (auto simp: plain_name_def bslash_def slash_def)
  with dirs d have plain: "\<forall>n\<in>set names. plain_name n"
    by (auto simp: names_def)
  have p: "parse_parts Windows loc =
    \<lparr>flav = Windows, drv = [l, CHR '':''], root = [bslash],
     parts = [l, CHR '':'', bslash] # names\<rparr>"
    unfolding loc_def
    by (rule parse_parts_windows_absolute [OF letter _ plain]) (simp add: names_def)
  obtain pre where "join_str [bslash] names = pre @ stem @ ''.pst''"
    using join_str_ends [of "[bslash]" dirs d "stem @ ''.pst''"] by (auto simp: names_def)
  then have "loc = ([l, CHR '':'', bslash] @ pre @ stem) @ ''.pst''"
    by (simp add: loc_def)
  then have ends: "endswith loc ''.pst''"
    by (simp only: endswith_append)
  have idx: "index_from_end (parts (parse_parts Windows loc)) 2 = Inr d"
    by (simp add: p index_from_end_def nth_append names_def)
  have st: "path_stem (parse_parts Windows loc) = stem"
    using stem by (intro path_stem_pst [where anchor = "[l, CHR '':'', bslash]" and dirs = dirs
        and d = d]) (simp_all add: p plain_name_def names_def)
  have "get_path_relative_to_data_dir fl self (PStr loc) = Inr (1, PStr (d @ [sep_of fl] @ stem))"
    using ends idx st by (simp add: till_resolution [OF till exts] truediv_plain [OF d stem])
  then show ?thesis
    by (simp add: loc_def names_def)
qed

text \<open>
  C5, amended: in the conversion of a Till record, a location that ends in
  \<^verbatim>\<open>.ps\<close> gets a \<^verbatim>\<open>t\<close> appended, with a warning logged, and the path is
  resolved from the completed location. For a Till importer, a location that
  ends in \<^verbatim>\<open>.pst\<close> or \<^verbatim>\<open>.ps\<close> and whose Windows path has at least two
  parts resolves to 1 and the second last part joined with the stem; a
  location that ends in neither resolves to 0 and \<^verbatim>\<open>wrong extension\<close>.
  In particular an absolute location, a drive letter followed by directory
  names and a file name \<^verbatim>\<open>stem.pst\<close>, resolves to 1 and the name of the last
  directory joined with the stem by the separator of the running system.
\<close>

theorem till_path_resolution:
  assumes till: "cls self \<noteq> LSMImporter"
    and exts: "movie_data_extensions self = Some [''.pst'', ''.ps'']"
  shows "(snd (convert_vws_names_to_lst_names fl self m dflt) = Inr row \<and>
          getitem m ''Location'' = Inr (PStr loc) \<and> endswith loc ''.ps'' \<longrightarrow>
            endswith (loc @ ''t'') ''.pst'' \<and>
            Log WARNING ''adding a t to the .ps file name to make it .pst'' []
              \<in> set (fst (convert_vws_names_to_lst_names fl self m dflt)) \<and>
            (\<exists>analyze dbb1. get_path_relative_to_data_dir fl self (PStr (loc @ ''t''))
                  = Inr (analyze, dbb1) \<and>
               map_of row ''DBB1'' = Some dbb1)) \<and>
         ((endswith loc ''.pst'' \<or> endswith loc ''.ps'') \<and>
          index_from_end (parts (parse_parts Windows loc)) 2 = Inr directory \<longrightarrow>
            get_path_relative_to_data_dir fl self (PStr loc) =
              Inr (1, PStr (path_str (truediv (parse_parts fl directory)
                                              (path_stem (parse_parts Windows loc)))))) \<and>
         (\<not> endswith loc ''.pst'' \<and> \<not> endswith loc ''.ps'' \<longrightarrow>
            get_path_relative_to_data_dir fl self (PStr loc) = Inr (0, PStr ''wrong extension'')) \<and>
         (is_drive_letter [l] \<and> (\<forall>n\<in>set dirs. plain_name n) \<and> plain_name d \<and>
          plain_name stem \<longrightarrow>
            get_path_relative_to_data_dir fl self
              (PStr ([l, CHR '':'', bslash] @ join_str [bslash] (dirs @ [d, stem @ ''.pst''])))
            = Inr (1, PStr (d @ [sep_of fl] @ stem)))"
proof (intro conjI impI)
  assume a: "snd (convert_vws_names_to_lst_names fl self m dflt) = Inr row \<and>
          getitem m ''Location'' = Inr (PStr loc) \<and> endswith loc ''.ps''"
  then show "endswith (loc @ ''t'') ''.pst''"
    using endswith_append_char [of loc "''.ps''" "CHR ''t''"] by simp
  from a show "Log WARNING ''adding a t to the .ps file name to make it .pst'' []
              \<in> set (fst (convert_vws_names_to_lst_names fl self m dflt))"
    by (simp add: convert_ps_warning)
  from a convert_columns [of fl self m dflt row]
  show "\<exists>analyze dbb1. get_path_relative_to_data_dir fl self (PStr (loc @ ''t''))
                  = Inr (analyze, dbb1) \<and> map_of row ''DBB1'' = Some dbb1"
    by (auto simp: fix_location_ps)
next
  assume "(endswith loc ''.pst'' \<or> endswith loc ''.ps'') \<and>
          index_from_end (parts (parse_parts Windows loc)) 2 = Inr directory"
  then show "get_path_relative_to_data_dir fl self (PStr loc) =
              Inr (1, PStr (path_str (truediv (parse_parts fl directory)
                                              (path_stem (parse_parts Windows loc)))))"
    by (simp add: till_resolution [OF till exts])
next
  assume "\<not> endswith loc ''.pst'' \<and> \<not> endswith loc ''.ps''"
  then show "get_path_relative_to_data_dir fl self (PStr loc) = Inr (0, PStr ''wrong extension'')"
    by (simp add: till_resolution [OF till exts])
next
  assume "is_drive_letter [l] \<and> (\<forall>n\<in>set dirs. plain_name n) \<and> plain_name d \<and>
          plain_name stem"
  then show "get_path_relative_to_data_dir fl self
              (PStr ([l, CHR '':'', bslash] @ join_str [bslash] (dirs @ [d, stem @ ''.pst''])))
            = Inr (1, PStr (d @ [sep_of fl] @ stem))"
    using windows_location_resolution [OF till exts] by blast
qed

theorem till_path_resolution_witness:
  "Log WARNING ''adding a t to the .ps file name to make it .pst'' []
     \<in> set (fst (convert_vws_names_to_lst_names Posix example_one
                    (inject_cols additional_cols_func (bee1_records ! 1)) example_defaults)) \<and>
   get_path_relative_to_data_dir Posix example_one
     (PStr (win_path [''C:'', ''data'', ''bee1'', ''m2.ps''] @ ''t'')) = Inr (1, PStr ''bee1/m2'') \<and>
   get_path_relative_to_data_dir Posix example_one
     (PStr (win_path [''C:'', ''data'', ''bee2'', ''n1.txt''])) = Inr (0, PStr ''wrong extension'') \<and>
   get_path_relative_to_data_dir Windows example_one
     (PStr (''C:'' @ [bslash] @ join_str [bslash] ([''data''] @ [''bee1'', ''m1'' @ ''.pst''])))
     = Inr (1, PStr (''bee1'' @ [bslash] @ ''m1''))"
proof -
  define m where "m = inject_cols additional_cols_func (bee1_records ! 1)"
  define row where "row =
     [(''Analyze'', PInt 1), (''Measu'', PInt 2), (''Label'', PStr ''m2''),
      (''DBB1'', PStr ''bee1/m2''), (''Cycle'', PFloat (Finite 100)), (''Lambda'', PInt 380),
      (''UTC'', PInt 1000)]"
  have till: "cls example_one \<noteq> LSMImporter"
    and exts: "movie_data_extensions example_one = Some [''.pst'', ''.ps'']"
    by (simp_all add: example_one_def TillImporterOneWavelength_init_def TillImporter_init_def
        BaseImporter_init_def)
  have conv: "snd (convert_vws_names_to_lst_names Posix example_one m example_defaults) = Inr row"
    by (simp add: m_def row_def model_eval example_eval)
  have loc: "getitem m ''Location'' = Inr (PStr (win_path [''C:'', ''data'', ''bee1'', ''m2.ps'']))"
    by (simp add: m_def model_eval example_eval)
  have ps: "endswith (win_path [''C:'', ''data'', ''bee1'', ''m2.ps'']) ''.ps''"
    and other: "\<not> endswith (win_path [''C:'', ''data'', ''bee2'', ''n1.txt'']) ''.pst''"
      "\<not> endswith (win_path [''C:'', ''data'', ''bee2'', ''n1.txt'']) ''.ps''"
    by (simp_all add: win_path_def endswith_def)
  have dir: "index_from_end
      (parts (parse_parts Windows (win_path [''C:'', ''data'', ''bee1'', ''m2.ps''] @ ''t''))) 2
      = Inr ''bee1''"
    and pst: "endswith (win_path [''C:'', ''data'', ''bee1'', ''m2.ps''] @ ''t'') ''.pst''"
    by (simp_all add: win_path_def index_from_end_def path_eval)
  have plain: "is_drive_letter ''C''" "\<forall>n\<in>set [''data'']. plain_name n" "plain_name ''bee1''"
    "plain_name ''m1''"
    by (simp_all add: is_drive_letter_def plain_name_def bslash_def slash_def)
  have "Log WARNING ''adding a t to the .ps file name to make it .pst'' []
     \<in> set (fst (convert_vws_names_to_lst_names Posix example_one m example_defaults))"
    using till_path_resolution [OF till exts, of Posix m example_defaults row
        "win_path [''C:'', ''data'', ''bee1'', ''m2.ps'']"] conv loc ps
    by blast
  moreover have "get_path_relative_to_data_dir Posix example_one
     (PStr (win_path [''C:'', ''data'', ''bee1'', ''m2.ps''] @ ''t'')) = Inr (1, PStr ''bee1/m2'')"
    using till_path_resolution [OF till exts, of Posix _ _ _
        "win_path [''C:'', ''data'', ''bee1'', ''m2.ps''] @ ''t''" "''bee1''"] dir pst
    by (simp add: win_path_def path_eval)
  moreover have "get_path_relative_to_data_dir Posix example_one
     (PStr (win_path [''C:'', ''data'', ''bee2'', ''n1.txt''])) = Inr (0, PStr ''wrong extension'')"
    using till_path_resolution [OF till exts, of Posix _ _ _
        "win_path [''C:'', ''data'', ''bee2'', ''n1.txt'']"] other
    by blast
  moreover have "get_path_relative_to_data_dir Windows example_one
     (PStr (''C:'' @ [bslash] @ join_str [bslash] ([''data''] @ [''bee1'', ''m1'' @ ''.pst''])))
     = Inr (1, PStr (''bee1'' @ [bslash] @ ''m1''))"
    using till_path_resolution [OF till exts, of Windows _ _ _ _ _ "CHR ''C''" "[''data'']"
        "''bee1''" "''m1''"] plain
    by simp
  ultimately show ?thesis
    by (simp add: m_def)
qed

end
